theory Spec2Isabelle
  imports Complex_Main "HOL-Library.List_Lexorder" "HOL-Library.Char_ord"
begin

section \<open>Conventions\<close>

text \<open>
  Python \<open>int\<close> is \<^typ>\<open>int\<close>. In the models of the simulation cycle, of the backfill and
  of the analytics a Python \<open>float\<close> is idealised as a \<^typ>\<open>real\<close> with exact
  arithmetic, and a value that is NaN in the program (the standard deviation of one sample,
  a correlation with zero variance) is \<open>None\<close> of an option type: what is proved of
  these models are counts, labels, orders and the absence of exceptions, which do not
  depend on the last digits of a speed. The speed computation itself is also modelled at
  the level of IEEE 754 binary64 arithmetic, with every operation rounded
  (\<open>calculate_speed_f64\<close>). Every exception the modelled code can raise is a value of
  \<open>py_exn\<close>, returned as \<open>Inl\<close> of a sum. Strings are compared lexicographically by
  character code, as Python does.
\<close>

datatype py_exn =
  ZeroDivisionError | ValueError | IndexError | KeyError | TypeError
  | ConnectionError | Timeout | OverflowError | OtherException

text \<open>\<open>int(x)\<close> of a float truncates towards zero.\<close>

definition py_int :: "real \<Rightarrow> int" where
  "py_int x = (if 0 \<le> x then \<lfloor>x\<rfloor> else \<lceil>x\<rceil>)"

text \<open>\<open>round(x, n)\<close>: to the nearest multiple of \<open>10^-n\<close>, an exact tie to the even one.\<close>

definition round_half_even :: "real \<Rightarrow> int" where
  "round_half_even x =
     (let f = \<lfloor>x\<rfloor>; d = x - of_int f
      in if d < 1 / 2 then f else if 1 / 2 < d then f + 1 else if even f then f else f + 1)"

definition py_round :: "real \<Rightarrow> nat \<Rightarrow> real" where
  "py_round x n = of_int (round_half_even (x * 10 ^ n)) / 10 ^ n"

section \<open>config.py\<close>

definition PEAK_MORNING_start :: int where "PEAK_MORNING_start = 6"
definition PEAK_MORNING_end :: int where "PEAK_MORNING_end = 9"
definition PEAK_EVENING_start :: int where "PEAK_EVENING_start = 16"
definition PEAK_EVENING_end :: int where "PEAK_EVENING_end = 19"

text \<open>The dictionaries are association lists: Python iterates a dict in insertion order.\<close>

definition VEHICLE_PATTERN :: "(int \<times> int) list" where
  "VEHICLE_PATTERN =
     [(0, 50), (1, 40), (2, 35), (3, 30), (4, 40), (5, 80),
      (6, 200), (7, 350), (8, 400), (9, 250), (10, 180), (11, 200),
      (12, 220), (13, 200), (14, 180), (15, 200), (16, 300),
      (17, 420), (18, 380), (19, 250), (20, 180), (21, 150),
      (22, 120), (23, 80)]"

definition RAIN_IMPACT :: "(string \<times> real) list" where
  "RAIN_IMPACT =
     [(''none'', 1), (''light'', 13 / 10), (''moderate'', 16 / 10),
      (''heavy'', 18 / 10), (''extreme'', 2)]"

definition TRAFFIC_THRESHOLDS :: "(string \<times> int \<times> int) list" where
  "TRAFFIC_THRESHOLDS =
     [(''Lancar'', 0, 100),
      (''Sedang'', 100, 200),
      (''Padat'', 200, 350),
      (''Sangat Padat'', 350, 500),
      (''Macet'', 500, 9999)]"

text \<open>\<open>d.get(k, default)\<close>\<close>

definition dict_get :: "('k \<times> 'v) list \<Rightarrow> 'k \<Rightarrow> 'v \<Rightarrow> 'v" where
  "dict_get d k dflt = (case map_of d k of Some v \<Rightarrow> v | None \<Rightarrow> dflt)"

section \<open>traffic_engine.py: the shared traffic model\<close>

definition is_peak_hour :: "int \<Rightarrow> bool" where
  "is_peak_hour hour =
     (let is_morning_peak = (PEAK_MORNING_start \<le> hour \<and> hour < PEAK_MORNING_end);
          is_evening_peak = (PEAK_EVENING_start \<le> hour \<and> hour < PEAK_EVENING_end)
      in is_morning_peak \<or> is_evening_peak)"

text \<open>
  The \<open>for condition, (low, high) in TRAFFIC_THRESHOLDS.items()\<close> loop: \<open>Some\<close> is the
  \<open>return condition\<close> inside the loop, \<open>None\<close> is the loop running to its end.
\<close>

fun scan_thresholds :: "(string \<times> int \<times> int) list \<Rightarrow> int \<Rightarrow> string option" where
  "scan_thresholds [] vehicle_count = None"
| "scan_thresholds ((condition, low, high) # rest) vehicle_count =
     (if low \<le> vehicle_count \<and> vehicle_count < high then Some condition
      else scan_thresholds rest vehicle_count)"

definition get_traffic_condition :: "int \<Rightarrow> string" where
  "get_traffic_condition vehicle_count =
     (case scan_thresholds TRAFFIC_THRESHOLDS vehicle_count of
        Some condition \<Rightarrow> condition
      | None \<Rightarrow> ''Macet'')"

text \<open>
  \<open>calculate_speed\<close> in exact arithmetic, as the simulation cycle uses it: \<open>u\<close> is the
  value of the draw \<open>random.uniform(-3, 3)\<close>. The division raises when \<open>rain_factor\<close> is
  zero. The same function in binary64 arithmetic is \<open>calculate_speed_f64\<close> below.
\<close>

definition calculate_speed :: "int \<Rightarrow> real \<Rightarrow> real \<Rightarrow> py_exn + real" where
  "calculate_speed vehicle_count rain_factor u =
     (let max_speed = 60; min_speed = 5;
          speed = max_speed - (of_int vehicle_count / 10)
      in if rain_factor = 0 then Inl ZeroDivisionError
         else let speed = speed / rain_factor;
                  speed = speed + u;
                  speed = max min_speed (min max_speed speed)
              in Inr (py_round speed 1))"

section \<open>data_generator.py: the generator's copies of the shared model\<close>

definition get_condition :: "int \<Rightarrow> string" where
  "get_condition vehicle_count =
     (case scan_thresholds TRAFFIC_THRESHOLDS vehicle_count of
        Some condition \<Rightarrow> condition
      | None \<Rightarrow> ''Macet'')"

definition gen_calculate_speed :: "int \<Rightarrow> real \<Rightarrow> real \<Rightarrow> py_exn + real" where
  "gen_calculate_speed vehicle_count rain_factor u =
     (let max_speed = 60; min_speed = 5;
          speed = max_speed - (of_int vehicle_count / 10)
      in if rain_factor = 0 then Inl ZeroDivisionError
         else let speed = speed / rain_factor;
                  speed = speed + u;
                  speed = max min_speed (min max_speed speed)
              in Inr (py_round speed 1))"

text \<open>The generator's inline peak test, \<open>6 <= hour <= 8 or 16 <= hour <= 18\<close>.\<close>

definition gen_is_peak :: "int \<Rightarrow> int" where
  "gen_is_peak hour = (if (6 \<le> hour \<and> hour \<le> 8) \<or> (16 \<le> hour \<and> hour \<le> 18) then 1 else 0)"

section \<open>Binary64 arithmetic and \<open>calculate_speed\<close>\<close>














section \<open>Rows, the database and the ambient inputs\<close>

text \<open>
  A timestamp is a naive date and time to the second, kept as the number of seconds since
  0001-01-01 00:00:00 (a Monday); the text \<open>%Y-%m-%d %H:%M:%S\<close> the program stores
  is in one-to-one, order-preserving correspondence with it. A \<open>datetime\<close> value of the
  program, which also carries microseconds, is the number of microseconds since that instant.
\<close>

record traffic_row =
  t_timestamp :: int
  t_location :: string
  t_vehicle_count :: int
  t_condition :: string
  t_speed_kmh :: real
  t_hour :: int
  t_is_peak :: int
  t_rain_factor :: real
  t_data_source :: string

record weather_row =
  w_timestamp :: int
  w_location :: string
  w_temperature :: real
  w_precipitation :: real
  w_windspeed :: real
  w_weather_code :: int
  w_weather_desc :: string
  w_rain_category :: string

text \<open>database.py: the two tables in insertion order; the \<open>id\<close> of a row is its position.\<close>

record database =
  db_traffic_data :: "traffic_row list"
  db_weather_data :: "weather_row list"

definition insert_traffic_data :: "traffic_row list \<Rightarrow> database \<Rightarrow> database" where
  "insert_traffic_data records db =
     (if records = [] then db else db\<lparr>db_traffic_data := db_traffic_data db @ records\<rparr>)"

definition insert_weather_data :: "weather_row \<Rightarrow> database \<Rightarrow> database" where
  "insert_weather_data r db = db\<lparr>db_weather_data := db_weather_data db @ [r]\<rparr>"

definition get_traffic_count :: "database \<Rightarrow> nat" where
  "get_traffic_count db = length (db_traffic_data db)"

definition get_weather_count :: "database \<Rightarrow> nat" where
  "get_weather_count db = length (db_weather_data db)"

text \<open>
  \<open>SELECT * FROM traffic_data ... ORDER BY timestamp DESC\<close>: descending by time, rows of
  equal time in insertion order.
\<close>

definition get_all_traffic_data :: "database \<Rightarrow> traffic_row list" where
  "get_all_traffic_data db = sort_key (\<lambda>r. - t_timestamp r) (db_traffic_data db)"

definition get_traffic_by_location :: "database \<Rightarrow> string \<Rightarrow> traffic_row list" where
  "get_traffic_by_location db loc =
     sort_key (\<lambda>r. - t_timestamp r) (filter (\<lambda>r. t_location r = loc) (db_traffic_data db))"

text \<open>
  The module \<open>random\<close>: \<open>rng\<close> is the sequence of values that \<open>random.random()\<close> returns,
  each in \<open>[0, 1)\<close>, and a position counts the draws made so far.
  \<open>random.uniform(a, b)\<close> is \<open>a + (b - a) * random.random()\<close>.
\<close>

definition random_random :: "(nat \<Rightarrow> real) \<Rightarrow> nat \<Rightarrow> real \<times> nat" where
  "random_random rng pos = (rng pos, Suc pos)"

definition random_uniform :: "(nat \<Rightarrow> real) \<Rightarrow> nat \<Rightarrow> real \<Rightarrow> real \<Rightarrow> real \<times> nat" where
  "random_uniform rng pos a b = (a + (b - a) * rng pos, Suc pos)"

definition US :: int where "US = 1000000"
definition DAY_US :: int where "DAY_US = 86400 * 1000000"

definition hour_of :: "int \<Rightarrow> int" where
  "hour_of t = (t div (3600 * 1000000)) mod 24"

definition minute_of :: "int \<Rightarrow> int" where
  "minute_of t = (t div (60 * 1000000)) mod 60"

text \<open>\<open>strftime("%Y-%m-%d %H:%M:%S")\<close> drops the microseconds.\<close>

definition strftime :: "int \<Rightarrow> int" where
  "strftime t = t div 1000000"

text \<open>\<open>t.replace(hour=h, minute=m, second=s)\<close> keeps the date and the microseconds.\<close>

definition replace_hms :: "int \<Rightarrow> int \<Rightarrow> int \<Rightarrow> int \<Rightarrow> int" where
  "replace_hms t h m s =
     (t div (86400 * 1000000)) * (86400 * 1000000) + (h * 3600 + m * 60 + s) * 1000000
       + t mod 1000000"

text \<open>\<open>weekday()\<close>: 0 is Monday.\<close>

definition weekday :: "int \<Rightarrow> int" where
  "weekday t = (t div (86400 * 1000000)) mod 7"

section \<open>weather_api.py\<close>

definition LOCATIONS :: "(string \<times> real \<times> real) list" where
  "LOCATIONS =
     [(''Jakarta Pusat'', - 62088 / 10000, 1068456 / 10000),
      (''Jakarta Selatan'', - 62614 / 10000, 1068456 / 10000),
      (''Jakarta Utara'', - 61361 / 10000, 1068513 / 10000),
      (''Jakarta Timur'', - 62297 / 10000, 1069012 / 10000),
      (''Jakarta Barat'', - 61847 / 10000, 1067513 / 10000)]"

definition weather_map_table :: "(int \<times> string \<times> string) list" where
  "weather_map_table =
     [(0, ''Cerah'', ''none''),
      (1, ''Cerah Sebagian'', ''none''),
      (2, ''Berawan Sebagian'', ''none''),
      (3, ''Mendung'', ''none''),
      (45, ''Kabut'', ''none''),
      (48, ''Kabut Tebal'', ''none''),
      (51, ''Gerimis Ringan'', ''light''),
      (53, ''Gerimis Sedang'', ''light''),
      (55, ''Gerimis Lebat'', ''moderate''),
      (61, ''Hujan Ringan'', ''light''),
      (63, ''Hujan Sedang'', ''moderate''),
      (65, ''Hujan Lebat'', ''heavy''),
      (66, ''Hujan Es Ringan'', ''moderate''),
      (67, ''Hujan Es Lebat'', ''heavy''),
      (71, ''Salju Ringan'', ''light''),
      (73, ''Salju Sedang'', ''moderate''),
      (75, ''Salju Lebat'', ''heavy''),
      (80, ''Hujan Singkat'', ''light''),
      (81, ''Hujan Singkat Sedang'', ''moderate''),
      (82, ''Hujan Singkat Lebat'', ''heavy''),
      (95, ''Petir'', ''extreme''),
      (96, ''Petir + Es'', ''extreme''),
      (99, ''Petir + Es Lebat'', ''extreme'')]"

definition decode_weather_code :: "int \<Rightarrow> string \<times> string" where
  "decode_weather_code code = dict_get weather_map_table code (''Unknown'', ''none'')"

text \<open>
  What \<open>requests.get\<close> does for one request: it raises an exception (\<open>ConnectionError\<close>,
  \<open>Timeout\<close> or another one), or it returns a response with a status code and a body. The body
  is not JSON (\<open>response.json()\<close> raises) or a JSON object. Of the object the program reads
  \<open>current_weather\<close> (three optional fields) and \<open>hourly\<close>; an entry of \<open>hourly["time"]\<close> is
  \<open>Some h\<close> when \<open>datetime.fromisoformat\<close> accepts it and gives the hour \<open>h\<close>, and \<open>None\<close>
  when \<open>fromisoformat\<close> raises.
\<close>

record current_weather =
  cw_temperature :: "real option"
  cw_windspeed :: "real option"
  cw_weathercode :: "int option"

record hourly =
  h_time :: "int option list option"
  h_precipitation :: "real list option"

record api_data =
  d_current_weather :: "current_weather option"
  d_hourly :: "hourly option"

datatype body = NotJson | Json api_data

datatype http_result = Raises py_exn | Response int body

text \<open>
  The loop \<open>for i, time_str in enumerate(times)\<close>: the first entry whose hour is the current
  one selects \<open>hourly["precipitation"][i]\<close>; without such an entry the value stays \<open>0.0\<close>.
\<close>

fun find_precipitation :: "int option list \<Rightarrow> nat \<Rightarrow> real list \<Rightarrow> int \<Rightarrow> py_exn + real" where
  "find_precipitation [] i precs current_hour = Inr 0"
| "find_precipitation (time_str # rest) i precs current_hour =
     (case time_str of
        None \<Rightarrow> Inl ValueError
      | Some h \<Rightarrow>
          if h = current_hour
          then (if i < length precs then Inr (precs ! i) else Inl IndexError)
          else find_precipitation rest (Suc i) precs current_hour)"

text \<open>The body of the \<open>try\<close> block of \<open>get_weather\<close>.\<close>

definition get_weather_try :: "string \<Rightarrow> http_result \<Rightarrow> int \<Rightarrow> py_exn + weather_row option" where
  "get_weather_try location result now =
     (case result of
        Raises e \<Rightarrow> Inl e
      | Response status_code b \<Rightarrow>
          if status_code \<noteq> 200 then Inr None
          else (case b of
             NotJson \<Rightarrow> Inl ValueError
           | Json data \<Rightarrow>
               let current = (case d_current_weather data of
                                Some c \<Rightarrow> c
                              | None \<Rightarrow> \<lparr>cw_temperature = None, cw_windspeed = None,
                                          cw_weathercode = None\<rparr>);
                   current_hour = hour_of now;
                   precipitation =
                     (case d_hourly data of
                        None \<Rightarrow> Inr 0
                      | Some hr \<Rightarrow>
                          (case h_precipitation hr of
                             None \<Rightarrow> Inr 0
                           | Some precs \<Rightarrow>
                               find_precipitation
                                 (case h_time hr of Some ts \<Rightarrow> ts | None \<Rightarrow> [])
                                 0 precs current_hour))
               in (case precipitation of
                     Inl e \<Rightarrow> Inl e
                   | Inr prec \<Rightarrow>
                       let weather_code = (case cw_weathercode current of Some c \<Rightarrow> c | None \<Rightarrow> 0);
                           weather_info = decode_weather_code weather_code
                       in Inr (Some
                            \<lparr>w_timestamp = strftime now,
                             w_location = location,
                             w_temperature =
                               (case cw_temperature current of Some t \<Rightarrow> t | None \<Rightarrow> 0),
                             w_precipitation = prec,
                             w_windspeed =
                               (case cw_windspeed current of Some w \<Rightarrow> w | None \<Rightarrow> 0),
                             w_weather_code = weather_code,
                             w_weather_desc = fst weather_info,
                             w_rain_category = snd weather_info\<rparr>))))"

text \<open>
  \<open>get_weather\<close>: an unknown location returns \<open>None\<close> before any request; the three
  \<open>except\<close> clauses, the last of which is \<open>except Exception\<close>, turn every exception of
  the \<open>try\<close> block into \<open>None\<close>. \<open>net\<close> gives the outcome of the request for a location.
\<close>

definition get_weather ::
  "(string \<times> real \<times> real) list \<Rightarrow> (string \<Rightarrow> http_result) \<Rightarrow> int \<Rightarrow> string
     \<Rightarrow> py_exn + weather_row option" where
  "get_weather locations net now location =
     (if location \<notin> set (map fst locations) then Inr None
      else (case get_weather_try location (net location) now of
              Inl e \<Rightarrow> Inr None
            | Inr r \<Rightarrow> Inr r))"

text \<open>\<open>get_all_weather\<close> keeps the results that are not \<open>None\<close>.\<close>

fun get_all_weather ::
  "(string \<times> real \<times> real) list \<Rightarrow> (string \<Rightarrow> http_result) \<Rightarrow> int \<Rightarrow> string list
     \<Rightarrow> py_exn + weather_row list" where
  "get_all_weather locations net now [] = Inr []"
| "get_all_weather locations net now (location # rest) =
     (case get_weather locations net now location of
        Inl e \<Rightarrow> Inl e
      | Inr data \<Rightarrow>
          (case get_all_weather locations net now rest of
             Inl e \<Rightarrow> Inl e
           | Inr results \<Rightarrow>
               Inr (case data of Some w \<Rightarrow> w # results | None \<Rightarrow> results)))"

definition fetch_and_save ::
  "(string \<times> real \<times> real) list \<Rightarrow> (string \<Rightarrow> http_result) \<Rightarrow> int \<Rightarrow> database
     \<Rightarrow> py_exn + (weather_row list \<times> database)" where
  "fetch_and_save locations net now db =
     (case get_all_weather locations net now (map fst locations) of
        Inl e \<Rightarrow> Inl e
      | Inr weather_list \<Rightarrow> Inr (weather_list, fold insert_weather_data weather_list db))"

section \<open>traffic_engine.py: the simulation cycle\<close>

text \<open>
  \<open>simulate_location\<close>: \<open>weather_data\<close> is \<open>None\<close> or a dictionary made by \<open>get_weather\<close>,
  which is never empty and so is true in \<open>if weather_data\<close>. One draw gives the location
  variance and one the perturbation of the speed.
\<close>

definition simulate_location ::
  "(nat \<Rightarrow> real) \<Rightarrow> int \<Rightarrow> string \<Rightarrow> weather_row option \<Rightarrow> nat \<Rightarrow> py_exn + (traffic_row \<times> nat)" where
  "simulate_location rng now location weather_data pos =
     (let hour = hour_of now;
          base_vehicles = dict_get VEHICLE_PATTERN hour 100;
          (location_variance, pos) = random_uniform rng pos (8 / 10) (12 / 10);
          vehicles = py_int (of_int base_vehicles * location_variance);
          rain_factor = (case weather_data of
                           None \<Rightarrow> 1
                         | Some w \<Rightarrow> dict_get RAIN_IMPACT (w_rain_category w) 1);
          vehicles = (case weather_data of
                        None \<Rightarrow> vehicles
                      | Some w \<Rightarrow> py_int (of_int vehicles * rain_factor));
          condition = get_traffic_condition vehicles;
          (u, pos) = random_uniform rng pos (- 3) 3
      in case calculate_speed vehicles rain_factor u of
           Inl e \<Rightarrow> Inl e
         | Inr speed \<Rightarrow>
             Inr (\<lparr>t_timestamp = strftime now,
                   t_location = location,
                   t_vehicle_count = vehicles,
                   t_condition = condition,
                   t_speed_kmh = speed,
                   t_hour = hour,
                   t_is_peak = (if is_peak_hour hour then 1 else 0),
                   t_rain_factor = rain_factor,
                   t_data_source = ''real_time_simulated''\<rparr>, pos))"

text \<open>The loop \<open>for location in LOCATIONS\<close> of \<open>run_simulation_cycle\<close>.\<close>

fun simulate_all ::
  "(nat \<Rightarrow> real) \<Rightarrow> int \<Rightarrow> (string \<rightharpoonup> weather_row) \<Rightarrow> string list \<Rightarrow> nat
     \<Rightarrow> py_exn + (traffic_row list \<times> nat)" where
  "simulate_all rng now weather_map [] pos = Inr ([], pos)"
| "simulate_all rng now weather_map (location # rest) pos =
     (case simulate_location rng now location (weather_map location) pos of
        Inl e \<Rightarrow> Inl e
      | Inr (traffic, pos') \<Rightarrow>
          (case simulate_all rng now weather_map rest pos' of
             Inl e \<Rightarrow> Inl e
           | Inr (traffic_records, pos'') \<Rightarrow> Inr (traffic # traffic_records, pos'')))"

definition run_simulation_cycle ::
  "(string \<times> real \<times> real) list \<Rightarrow> (string \<Rightarrow> http_result) \<Rightarrow> int \<Rightarrow> (nat \<Rightarrow> real) \<Rightarrow> nat
     \<Rightarrow> database \<Rightarrow> py_exn + (traffic_row list \<times> database \<times> nat)" where
  "run_simulation_cycle locations net now rng pos db =
     (case fetch_and_save locations net now db of
        Inl e \<Rightarrow> Inl e
      | Inr (weather_list, db) \<Rightarrow>
          let weather_map = fold (\<lambda>w m. m(w_location w \<mapsto> w)) weather_list Map.empty
          in (case simulate_all rng now weather_map (map fst locations) pos of
                Inl e \<Rightarrow> Inl e
              | Inr (traffic_records, pos') \<Rightarrow>
                  Inr (traffic_records, insert_traffic_data traffic_records db, pos')))"

text \<open>The ways a fetch fails that the specification names.\<close>

definition fetch_fails :: "http_result \<Rightarrow> bool" where
  "fetch_fails result =
     (case result of
        Raises e \<Rightarrow> True
      | Response status_code b \<Rightarrow> status_code \<noteq> 200)"

section \<open>data_generator.py: the historical backfill\<close>

definition HISTORICAL_DAYS :: int where "HISTORICAL_DAYS = 30"
definition DATA_INTERVAL_MINUTES :: int where "DATA_INTERVAL_MINUTES = 5"

record sim_weather =
  sw_precipitation :: real
  sw_rain_category :: string
  sw_temperature :: real

definition simulate_historical_weather ::
  "(nat \<Rightarrow> real) \<Rightarrow> nat \<Rightarrow> int \<Rightarrow> int \<Rightarrow> sim_weather \<times> nat" where
  "simulate_historical_weather rng pos hour day_of_week =
     (let rain_probability =
            (if 6 \<le> hour \<and> hour \<le> 10 then 45 / 100
             else if 15 \<le> hour \<and> hour \<le> 18 then 40 / 100
             else if 0 \<le> hour \<and> hour \<le> 5 then 10 / 100
             else 15 / 100);
          rain_probability = rain_probability * (12 / 10);
          (r, pos) = random_random rng pos;
          is_rain = (r < rain_probability);
          (rain_cat, precipitation, pos) =
            (if is_rain
             then (let (intensity, pos) = random_random rng pos
                   in if intensity < 5 / 10
                      then (let (x, pos) = random_uniform rng pos (5 / 10) (25 / 10)
                            in (''light'', py_round x 2, pos))
                      else if intensity < 8 / 10
                      then (let (x, pos) = random_uniform rng pos (25 / 10) 7
                            in (''moderate'', py_round x 2, pos))
                      else if intensity < 95 / 100
                      then (let (x, pos) = random_uniform rng pos 7 15
                            in (''heavy'', py_round x 2, pos))
                      else (let (x, pos) = random_uniform rng pos 15 30
                            in (''extreme'', py_round x 2, pos)))
             else (''none'', 0, pos));
          (x, pos) =
            (if 5 \<le> hour \<and> hour \<le> 10 then random_uniform rng pos 25 29
             else if 10 \<le> hour \<and> hour \<le> 15 then random_uniform rng pos 29 33
             else if 15 \<le> hour \<and> hour \<le> 20 then random_uniform rng pos 27 31
             else random_uniform rng pos 24 28);
          temperature = py_round x 1
      in (\<lparr>sw_precipitation = precipitation, sw_rain_category = rain_cat,
           sw_temperature = temperature\<rparr>, pos))"

text \<open>
  The state of \<open>generate_historical_data\<close>: the position in the random sequence, the two
  batches, the progress counter and the database.
\<close>

record gen_state =
  g_pos :: nat
  g_traffic_batch :: "traffic_row list"
  g_weather_batch :: "weather_row list"
  g_count :: nat
  g_db :: database

text \<open>The first \<open>for location in LOCATIONS\<close> loop of a slot: one traffic record each.\<close>

fun traffic_for_locations ::
  "(nat \<Rightarrow> real) \<Rightarrow> int \<Rightarrow> int \<Rightarrow> sim_weather \<Rightarrow> string list \<Rightarrow> gen_state
     \<Rightarrow> py_exn + gen_state" where
  "traffic_for_locations rng current_time day_of_week weather [] st = Inr st"
| "traffic_for_locations rng current_time day_of_week weather (location # rest) st =
     (let hour = hour_of current_time;
          base_vehicles = dict_get VEHICLE_PATTERN hour 100;
          (location_var, pos) = random_uniform rng (g_pos st) (8 / 10) (12 / 10);
          (day_var, pos) =
            (if 5 \<le> day_of_week then random_uniform rng pos (6 / 10) (85 / 100)
             else random_uniform rng pos (9 / 10) (11 / 10));
          rain_factor = dict_get RAIN_IMPACT (sw_rain_category weather) 1;
          vehicles = py_int (of_int base_vehicles * location_var * day_var * rain_factor);
          condition = get_condition vehicles;
          (u, pos) = random_uniform rng pos (- 3) 3
      in case gen_calculate_speed vehicles rain_factor u of
           Inl e \<Rightarrow> Inl e
         | Inr speed \<Rightarrow>
             traffic_for_locations rng current_time day_of_week weather rest
               (st\<lparr>g_pos := pos,
                   g_traffic_batch := g_traffic_batch st @
                     [\<lparr>t_timestamp = strftime current_time,
                       t_location = location,
                       t_vehicle_count = vehicles,
                       t_condition = condition,
                       t_speed_kmh = speed,
                       t_hour = hour,
                       t_is_peak = gen_is_peak hour,
                       t_rain_factor = rain_factor,
                       t_data_source = ''historical_generated''\<rparr>],
                   g_count := g_count st + 1\<rparr>))"

text \<open>The second loop, run when \<open>current_time.minute == 0\<close>: one weather record each.\<close>

fun weather_for_locations ::
  "(nat \<Rightarrow> real) \<Rightarrow> int \<Rightarrow> sim_weather \<Rightarrow> string list \<Rightarrow> gen_state \<Rightarrow> gen_state" where
  "weather_for_locations rng current_time weather [] st = st"
| "weather_for_locations rng current_time weather (location # rest) st =
     (let (x, pos) = random_uniform rng (g_pos st) 5 25
      in weather_for_locations rng current_time weather rest
           (st\<lparr>g_pos := pos,
               g_weather_batch := g_weather_batch st @
                 [\<lparr>w_timestamp = strftime current_time,
                   w_location = location,
                   w_temperature = sw_temperature weather,
                   w_precipitation = sw_precipitation weather,
                   w_windspeed = py_round x 1,
                   w_weather_code = (if sw_rain_category weather \<noteq> ''none'' then 61 else 0),
                   w_weather_desc =
                     (if sw_rain_category weather \<noteq> ''none'' then ''Hujan'' else ''Cerah''),
                   w_rain_category = sw_rain_category weather\<rparr>]\<rparr>))"

text \<open>
  One pass of the inner \<open>while\<close> body, up to the increment of \<open>current_time\<close>: the weather
  of the hour is simulated once and cached, every location gets a traffic record, and on
  a full hour every location gets a weather record. The progress message, printed when
  the count of records is a multiple of 10000, is not part of the model.
\<close>

definition slot ::
  "(nat \<Rightarrow> real) \<Rightarrow> string list \<Rightarrow> int \<Rightarrow> int \<Rightarrow> (int \<rightharpoonup> sim_weather) \<Rightarrow> gen_state
     \<Rightarrow> py_exn + ((int \<rightharpoonup> sim_weather) \<times> gen_state)" where
  "slot rng locations day_of_week current_time weather_cache st =
     (let hour = hour_of current_time;
          (weather, weather_cache, st) =
            (case weather_cache hour of
               Some w \<Rightarrow> (w, weather_cache, st)
             | None \<Rightarrow>
                 (let (w, pos) = simulate_historical_weather rng (g_pos st) hour day_of_week
                  in (w, weather_cache(hour \<mapsto> w), st\<lparr>g_pos := pos\<rparr>)))
      in case traffic_for_locations rng current_time day_of_week weather locations st of
           Inl e \<Rightarrow> Inl e
         | Inr st \<Rightarrow>
             Inr (weather_cache,
                  if minute_of current_time = 0
                  then weather_for_locations rng current_time weather locations st
                  else st))"

text \<open>
  The inner loop \<open>while current_time <= end_of_day and current_time < now\<close>. With a
  negative interval the time only moves back and the condition stays true: the result is
  then \<open>None\<close>.
\<close>

partial_function (option) day_loop ::
  "(nat \<Rightarrow> real) \<Rightarrow> int \<Rightarrow> string list \<Rightarrow> int \<Rightarrow> int \<Rightarrow> int \<Rightarrow> int
     \<Rightarrow> (int \<rightharpoonup> sim_weather) \<Rightarrow> gen_state \<Rightarrow> (py_exn + gen_state) option" where
  "day_loop rng interval_minutes locations now day_of_week end_of_day current_time
       weather_cache st =
     (if current_time \<le> end_of_day \<and> current_time < now
      then (case slot rng locations day_of_week current_time weather_cache st of
              Inl e \<Rightarrow> Some (Inl e)
            | Inr (weather_cache', st') \<Rightarrow>
                day_loop rng interval_minutes locations now day_of_week end_of_day
                  (current_time + interval_minutes * 60 * 1000000) weather_cache' st')
      else Some (Inr st))"

text \<open>
  The outer loop \<open>while current_date < now\<close>: one day, then the batch is written to the
  database when it holds more than 5000 records.
\<close>

function generate_days ::
  "(nat \<Rightarrow> real) \<Rightarrow> int \<Rightarrow> string list \<Rightarrow> int \<Rightarrow> int \<Rightarrow> gen_state
     \<Rightarrow> (py_exn + gen_state) option" where
  "generate_days rng interval_minutes locations now current_date st =
     (if current_date < now
      then (let day_of_week = weekday current_date;
                current_time = replace_hms current_date 0 0 0;
                end_of_day = replace_hms current_date 23 59 59
            in case day_loop rng interval_minutes locations now day_of_week end_of_day
                      current_time Map.empty st of
                 None \<Rightarrow> None
               | Some (Inl e) \<Rightarrow> Some (Inl e)
               | Some (Inr st') \<Rightarrow>
                   generate_days rng interval_minutes locations now (current_date + DAY_US)
                     (if 5000 < length (g_traffic_batch st')
                      then st'\<lparr>g_db := insert_traffic_data (g_traffic_batch st') (g_db st'),
                               g_traffic_batch := []\<rparr>
                      else st'))
      else Some (Inr st))"
  by pat_completeness auto
termination
  by (relation "measure (\<lambda>(rng, interval_minutes, locations, now, current_date, st).
                  nat (now - current_date))")
     (auto simp add: DAY_US_def)

text \<open>
  The weather batch is written in slices of 1000:
  \<open>for i in range(0, len(weather_batch), batch_size)\<close>.
\<close>

function insert_weather_batches :: "weather_row list \<Rightarrow> nat \<Rightarrow> database \<Rightarrow> database" where
  "insert_weather_batches weather_batch i db =
     (if i < length weather_batch
      then insert_weather_batches weather_batch (i + 1000)
             (db\<lparr>db_weather_data := db_weather_data db @ take 1000 (drop i weather_batch)\<rparr>)
      else db)"
  by pat_completeness auto
termination
  by (relation "measure (\<lambda>(weather_batch, i, db). length weather_batch - i)") auto

text \<open>
  \<open>generate_historical_data\<close>: the expected total \<open>24 * 60 // DATA_INTERVAL_MINUTES\<close>
  raises \<open>ZeroDivisionError\<close> for an interval of zero, before any record is made. The
  result is the database after the run.
\<close>

definition generate_historical_data ::
  "int \<Rightarrow> int \<Rightarrow> (string \<times> real \<times> real) list \<Rightarrow> int \<Rightarrow> (nat \<Rightarrow> real) \<Rightarrow> nat \<Rightarrow> database
     \<Rightarrow> (py_exn + database) option" where
  "generate_historical_data days interval_minutes locations now rng pos db =
     (let start_date = now - days * DAY_US;
          st = \<lparr>g_pos = pos, g_traffic_batch = [], g_weather_batch = [], g_count = 0,
                g_db = db\<rparr>
      in if interval_minutes = 0 then Some (Inl ZeroDivisionError)
         else case generate_days rng interval_minutes (map fst locations) now start_date st of
           None \<Rightarrow> None
         | Some (Inl e) \<Rightarrow> Some (Inl e)
         | Some (Inr st) \<Rightarrow>
             let db = (if g_traffic_batch st \<noteq> []
                       then insert_traffic_data (g_traffic_batch st) (g_db st)
                       else g_db st)
             in Some (Inr (insert_weather_batches (g_weather_batch st) 0 db)))"

section \<open>analytics.py\<close>

text \<open>
  A function that returns a dictionary returns either \<open>{"error": message}\<close> or the full
  dictionary; a function that returns a DataFrame returns the list of its rows, and the
  empty DataFrame is the empty list.
\<close>

datatype 'a reply = ErrorDict string | Reply 'a

text \<open>
  Series statistics of pandas. The mean and the maximum of no values are NaN; the standard
  deviation is the sample one (\<open>ddof = 1\<close>) and is NaN for fewer than two values.
\<close>

definition mean :: "real list \<Rightarrow> real option" where
  "mean xs = (if xs = [] then None else Some (sum_list xs / of_nat (length xs)))"

definition std :: "real list \<Rightarrow> real option" where
  "std xs =
     (if length xs < 2 then None
      else (let m = sum_list xs / of_nat (length xs)
            in Some (sqrt (sum_list (map (\<lambda>x. (x - m)\<^sup>2) xs) / of_nat (length xs - 1)))))"

fun max_opt :: "int list \<Rightarrow> int option" where
  "max_opt [] = None"
| "max_opt (x # xs) = Some (fold max xs x)"

fun min_opt :: "int list \<Rightarrow> int option" where
  "min_opt [] = None"
| "min_opt (x # xs) = Some (fold min xs x)"

fun last_opt :: "'a list \<Rightarrow> 'a option" where
  "last_opt [] = None"
| "last_opt [x] = Some x"
| "last_opt (x # y # xs) = last_opt (y # xs)"

text \<open>Arithmetic, rounding and \<open>int()\<close> on a float that may be NaN; \<open>int(nan)\<close> raises.\<close>

definition nan_add :: "real option \<Rightarrow> real option \<Rightarrow> real option" where
  "nan_add a b = (case a of None \<Rightarrow> None | Some x \<Rightarrow> (case b of None \<Rightarrow> None | Some y \<Rightarrow> Some (x + y)))"

definition nan_sub :: "real option \<Rightarrow> real option \<Rightarrow> real option" where
  "nan_sub a b = (case a of None \<Rightarrow> None | Some x \<Rightarrow> (case b of None \<Rightarrow> None | Some y \<Rightarrow> Some (x - y)))"

definition nan_round :: "real option \<Rightarrow> nat \<Rightarrow> real option" where
  "nan_round a n = (case a of None \<Rightarrow> None | Some x \<Rightarrow> Some (py_round x n))"

definition nan_ge :: "real option \<Rightarrow> real \<Rightarrow> bool" where
  "nan_ge a c = (case a of None \<Rightarrow> False | Some x \<Rightarrow> c \<le> x)"

definition int_of_float :: "real option \<Rightarrow> py_exn + int" where
  "int_of_float a = (case a of None \<Rightarrow> Inl ValueError | Some x \<Rightarrow> Inr (py_int x))"

text \<open>\<open>str(i)\<close> of an integer, for the f-string of \<open>predict_traffic\<close>.\<close>

fun digits :: "nat \<Rightarrow> string" where
  "digits n = (if n < 10 then [char_of (48 + n)]
               else digits (n div 10) @ [char_of (48 + n mod 10)])"

definition py_str :: "int \<Rightarrow> string" where
  "py_str i = (if i < 0 then CHR ''-'' # digits (nat (- i)) else digits (nat i))"

text \<open>The keys of \<open>groupby\<close>, in ascending order.\<close>

definition group_keys :: "('r \<Rightarrow> 'k::linorder) \<Rightarrow> 'r list \<Rightarrow> 'k list" where
  "group_keys key df = sort (remdups (map key df))"

definition vehicle_counts :: "traffic_row list \<Rightarrow> real list" where
  "vehicle_counts df = map (\<lambda>r. of_int (t_vehicle_count r)) df"

subsection \<open>1. Overall statistics\<close>

record overall_stats =
  os_total_records :: nat
  os_total_locations :: nat
  os_avg_vehicles :: "real option"
  os_max_vehicles :: int
  os_min_vehicles :: int
  os_avg_speed :: "real option"
  os_most_common_condition :: string
  os_peak_records :: int
  os_rainy_records :: nat

text \<open>\<open>Series.mode()\<close>: the most frequent values, in ascending order.\<close>

definition mode :: "string list \<Rightarrow> string list" where
  "mode xs =
     (let vals = sort (remdups xs);
          top = fold max (map (count_list xs) vals) 0
      in filter (\<lambda>v. count_list xs v = top) vals)"

definition get_overall_stats :: "database \<Rightarrow> py_exn + overall_stats reply" where
  "get_overall_stats db =
     (let df = get_all_traffic_data db
      in if df = [] then Inr (ErrorDict ''Tidak ada data'')
         else (case max_opt (map t_vehicle_count df) of
                 None \<Rightarrow> Inl ValueError
               | Some max_vehicles \<Rightarrow>
                   (case min_opt (map t_vehicle_count df) of
                      None \<Rightarrow> Inl ValueError
                    | Some min_vehicles \<Rightarrow>
                        Inr (Reply
                          \<lparr>os_total_records = length df,
                           os_total_locations = length (remdups (map t_location df)),
                           os_avg_vehicles = nan_round (mean (vehicle_counts df)) 1,
                           os_max_vehicles = max_vehicles,
                           os_min_vehicles = min_vehicles,
                           os_avg_speed = nan_round (mean (map t_speed_kmh df)) 1,
                           os_most_common_condition =
                             (case mode (map t_condition df) of
                                [] \<Rightarrow> ''N/A''
                              | c # cs \<Rightarrow> c),
                           os_peak_records = sum_list (map t_is_peak df),
                           os_rainy_records = length (filter (\<lambda>r. 1 < t_rain_factor r) df)\<rparr>))))"

subsection \<open>2. Hourly pattern\<close>

record hourly_row =
  hp_hour :: int
  hp_avg_vehicles :: "real option"
  hp_max_vehicles :: "int option"
  hp_avg_speed :: "real option"
  hp_count :: nat

text \<open>\<open>if location\<close>: \<open>None\<close> and the empty string select the whole table.\<close>

definition get_hourly_pattern :: "database \<Rightarrow> string option \<Rightarrow> hourly_row list" where
  "get_hourly_pattern db location =
     (let df = (case location of
                  None \<Rightarrow> get_all_traffic_data db
                | Some l \<Rightarrow> if l \<noteq> [] then get_traffic_by_location db l
                            else get_all_traffic_data db)
      in if df = [] then []
         else map (\<lambda>h. let g = filter (\<lambda>r. t_hour r = h) df
                        in \<lparr>hp_hour = h,
                            hp_avg_vehicles = nan_round (mean (vehicle_counts g)) 1,
                            hp_max_vehicles = max_opt (map t_vehicle_count g),
                            hp_avg_speed = nan_round (mean (map t_speed_kmh g)) 1,
                            hp_count = length g\<rparr>)
                  (group_keys t_hour df))"

subsection \<open>3. Rain correlation\<close>

definition categorize_rain :: "real \<Rightarrow> string" where
  "categorize_rain factor =
     (if factor \<le> 1 then ''Tidak Hujan''
      else if factor \<le> 13 / 10 then ''Hujan Ringan''
      else if factor \<le> 16 / 10 then ''Hujan Sedang''
      else if factor \<le> 18 / 10 then ''Hujan Lebat''
      else ''Hujan Ekstrem'')"

text \<open>
  \<open>Series.corr\<close>, the Pearson coefficient: NaN for fewer than two rows and when one of the
  two columns is constant.
\<close>

definition corr :: "real list \<Rightarrow> real list \<Rightarrow> real option" where
  "corr xs ys =
     (if length xs < 2 then None
      else (let mx = sum_list xs / of_nat (length xs);
                my = sum_list ys / of_nat (length ys);
                sxy = sum_list (map (\<lambda>(x, y). (x - mx) * (y - my)) (zip xs ys));
                sxx = sum_list (map (\<lambda>x. (x - mx)\<^sup>2) xs);
                syy = sum_list (map (\<lambda>y. (y - my)\<^sup>2) ys)
            in if sxx = 0 \<or> syy = 0 then None else Some (sxy / sqrt (sxx * syy))))"

definition interpret_correlation :: "real option \<Rightarrow> string" where
  "interpret_correlation corr_value =
     (if nan_ge corr_value (7 / 10)
      then ''Korelasi Kuat Positif: Hujan sangat mempengaruhi kemacetan''
      else if nan_ge corr_value (4 / 10)
      then ''Korelasi Sedang Positif: Hujan cukup mempengaruhi kemacetan''
      else if nan_ge corr_value (2 / 10)
      then ''Korelasi Lemah Positif: Hujan sedikit mempengaruhi kemacetan''
      else ''Korelasi Sangat Lemah: Hujan tidak terlalu mempengaruhi'')"

record rain_stat =
  rs_rain_category :: string
  rs_avg_vehicles :: "real option"
  rs_max_vehicles :: "int option"
  rs_avg_speed :: "real option"
  rs_count :: nat

record rain_correlation =
  rc_correlation_coefficient :: "real option"
  rc_stats_by_category :: "rain_stat list"
  rc_interpretation :: string

definition get_rain_correlation :: "database \<Rightarrow> rain_correlation reply" where
  "get_rain_correlation db =
     (let df = get_all_traffic_data db
      in if df = [] then ErrorDict ''Tidak ada data''
         else (let rain_stats =
                     map (\<lambda>c. let g = filter (\<lambda>r. categorize_rain (t_rain_factor r) = c) df
                              in \<lparr>rs_rain_category = c,
                                  rs_avg_vehicles = nan_round (mean (vehicle_counts g)) 1,
                                  rs_max_vehicles = max_opt (map t_vehicle_count g),
                                  rs_avg_speed = nan_round (mean (map t_speed_kmh g)) 1,
                                  rs_count = length g\<rparr>)
                         (group_keys (\<lambda>r. categorize_rain (t_rain_factor r)) df);
                   correlation = corr (map t_rain_factor df) (vehicle_counts df)
               in Reply \<lparr>rc_correlation_coefficient = nan_round correlation 3,
                         rc_stats_by_category = rain_stats,
                         rc_interpretation = interpret_correlation correlation\<rparr>))"

subsection \<open>4. Location comparison\<close>

record location_stat =
  lc_location :: string
  lc_avg_vehicles :: "real option"
  lc_max_vehicles :: "int option"
  lc_min_vehicles :: "int option"
  lc_avg_speed :: "real option"
  lc_total_records :: nat
  lc_macet_count :: nat
  lc_macet_pct :: "real option"

text \<open>
  \<open>sort_values("avg_vehicles", ascending=False)\<close>: descending, NaN last; rows with equal
  averages are kept in group order.
\<close>

definition sort_desc_nan_last :: "('r \<Rightarrow> real option) \<Rightarrow> 'r list \<Rightarrow> 'r list" where
  "sort_desc_nan_last key rows =
     sort_key (\<lambda>r. case key r of Some x \<Rightarrow> - x | None \<Rightarrow> 0) (filter (\<lambda>r. key r \<noteq> None) rows)
       @ filter (\<lambda>r. key r = None) rows"

definition get_location_comparison :: "database \<Rightarrow> location_stat list" where
  "get_location_comparison db =
     (let df = get_all_traffic_data db
      in if df = [] then []
         else sort_desc_nan_last lc_avg_vehicles
                (map (\<lambda>l. let g = filter (\<lambda>r. t_location r = l) df;
                               macet_count = length (filter (\<lambda>r. t_condition r = ''Macet'') g)
                           in \<lparr>lc_location = l,
                               lc_avg_vehicles = nan_round (mean (vehicle_counts g)) 1,
                               lc_max_vehicles = max_opt (map t_vehicle_count g),
                               lc_min_vehicles = min_opt (map t_vehicle_count g),
                               lc_avg_speed = nan_round (mean (map t_speed_kmh g)) 1,
                               lc_total_records = length g,
                               lc_macet_count = macet_count,
                               lc_macet_pct =
                                 (if g = [] then None
                                  else Some (py_round
                                         (of_nat macet_count / of_nat (length g) * 100) 1))\<rparr>)
                     (group_keys t_location df)))"

subsection \<open>5. Prediction\<close>

record prediction =
  p_location :: string
  p_target_hour :: int
  p_predicted_vehicles_min :: int
  p_predicted_vehicles_avg :: int
  p_predicted_vehicles_max :: int
  p_predicted_speed :: "real option"
  p_predicted_condition :: string
  p_confidence :: string
  p_samples_used :: nat

text \<open>
  The loop of \<open>predict_traffic\<close> over the threshold table: \<open>condition\<close> starts as
  \<open>"Lancar"\<close> and is replaced by the label of the first band that contains the value.
\<close>

fun predict_scan :: "(string \<times> int \<times> int) list \<Rightarrow> int \<Rightarrow> string \<Rightarrow> string" where
  "predict_scan [] predicted_avg condition = condition"
| "predict_scan ((cond, low, high) # rest) predicted_avg condition =
     (if low \<le> predicted_avg \<and> predicted_avg < high then cond
      else predict_scan rest predicted_avg condition)"

definition predicted_condition :: "int \<Rightarrow> string" where
  "predicted_condition predicted_avg = predict_scan TRAFFIC_THRESHOLDS predicted_avg ''Lancar''"

definition predict_traffic :: "database \<Rightarrow> string \<Rightarrow> int \<Rightarrow> py_exn + prediction reply" where
  "predict_traffic db location target_hour =
     (let df = get_traffic_by_location db location
      in if df = [] then Inr (ErrorDict ''Tidak ada data historis'')
         else (let df_hour = filter (\<lambda>r. t_hour r = target_hour) df
               in if df_hour = []
                  then Inr (ErrorDict (''Tidak ada data untuk jam '' @ py_str target_hour @ '':00''))
                  else (let avg_vehicles = mean (vehicle_counts df_hour);
                            std_vehicles = std (vehicle_counts df_hour);
                            avg_speed = mean (map t_speed_kmh df_hour)
                        in case int_of_float (nan_sub avg_vehicles std_vehicles) of
                             Inl e \<Rightarrow> Inl e
                           | Inr lo \<Rightarrow>
                               (case int_of_float (nan_add avg_vehicles std_vehicles) of
                                  Inl e \<Rightarrow> Inl e
                                | Inr predicted_max \<Rightarrow>
                                    (case int_of_float avg_vehicles of
                                       Inl e \<Rightarrow> Inl e
                                     | Inr predicted_avg \<Rightarrow>
                                         Inr (Reply
                                           \<lparr>p_location = location,
                                            p_target_hour = target_hour,
                                            p_predicted_vehicles_min = max 0 lo,
                                            p_predicted_vehicles_avg = predicted_avg,
                                            p_predicted_vehicles_max = predicted_max,
                                            p_predicted_speed = nan_round avg_speed 1,
                                            p_predicted_condition =
                                              predicted_condition predicted_avg,
                                            p_confidence =
                                              ''Sedang (berbasis rata-rata historis)'',
                                            p_samples_used = length df_hour\<rparr>))))))"

subsection \<open>6. Weekday against weekend\<close>

record day_type_stat =
  dt_label :: string
  dt_avg_vehicles :: "real option"
  dt_avg_speed :: "real option"
  dt_total_records :: nat

text \<open>\<open>dt.dayofweek\<close> of a timestamp in seconds: 0 is Monday.\<close>

definition dayofweek :: "int \<Rightarrow> int" where
  "dayofweek ts = (ts div 86400) mod 7"

definition day_type :: "string \<Rightarrow> traffic_row list \<Rightarrow> day_type_stat" where
  "day_type label part =
     \<lparr>dt_label = label,
      dt_avg_vehicles = (if part \<noteq> [] then nan_round (mean (vehicle_counts part)) 1 else Some 0),
      dt_avg_speed = (if part \<noteq> [] then nan_round (mean (map t_speed_kmh part)) 1 else Some 0),
      dt_total_records = length part\<rparr>"

definition get_weekday_vs_weekend :: "database \<Rightarrow> (day_type_stat \<times> day_type_stat) reply" where
  "get_weekday_vs_weekend db =
     (let df = get_all_traffic_data db
      in if df = [] then ErrorDict ''Tidak ada data''
         else (let weekday_part = filter (\<lambda>r. dayofweek (t_timestamp r) < 5) df;
                   weekend_part = filter (\<lambda>r. 5 \<le> dayofweek (t_timestamp r)) df
               in Reply (day_type ''Hari Kerja (Sen-Jum)'' weekday_part,
                         day_type ''Weekend (Sab-Min)'' weekend_part)))"

subsection \<open>7. Top congestion\<close>

text \<open>
  \<open>nlargest(top_n, "vehicle_count")\<close>: the first \<open>top_n\<close> rows by descending count, equal
  counts in the order of the frame. The columns are timestamp, location, vehicle_count,
  condition, speed_kmh and rain_factor.
\<close>

definition get_top_congestion ::
  "database \<Rightarrow> int \<Rightarrow> (int \<times> string \<times> int \<times> string \<times> real \<times> real) list" where
  "get_top_congestion db top_n =
     (let df = get_all_traffic_data db
      in if df = [] then []
         else map (\<lambda>r. (t_timestamp r, t_location r, t_vehicle_count r, t_condition r,
                        t_speed_kmh r, t_rain_factor r))
                  (take (nat top_n) (sort_key (\<lambda>r. - t_vehicle_count r) df)))"

subsection \<open>8. Current status\<close>

text \<open>
  The last row of each location after sorting by time; the columns are location,
  vehicle_count, condition, speed_kmh, rain_factor and timestamp.
\<close>

definition get_current_status ::
  "database \<Rightarrow> (string \<times> int \<times> string \<times> real \<times> real \<times> int) list" where
  "get_current_status db =
     (let df = get_all_traffic_data db
      in if df = [] then []
         else (let sorted_df = sort_key t_timestamp df
               in concat (map (\<lambda>l. case last_opt (filter (\<lambda>r. t_location r = l) sorted_df) of
                                      None \<Rightarrow> []
                                    | Some r \<Rightarrow> [(l, t_vehicle_count r, t_condition r,
                                                  t_speed_kmh r, t_rain_factor r,
                                                  t_timestamp r)])
                              (group_keys t_location df))))"

section \<open>Example inputs\<close>

text \<open>
  A network on which the request for Jakarta Pusat succeeds with heavy rain, the one for
  Jakarta Selatan returns status 503 and every other request times out.
\<close>

definition example_net :: "string \<Rightarrow> http_result" where
  "example_net location_name =
     (if location_name = ''Jakarta Pusat''
      then Response 200 (Json \<lparr>d_current_weather =
                                Some \<lparr>cw_temperature = Some 28, cw_windspeed = Some 12,
                                      cw_weathercode = Some 65\<rparr>,
                              d_hourly = None\<rparr>)
      else if location_name = ''Jakarta Selatan'' then Response 503 NotJson
      else Raises Timeout)"

definition empty_db :: database where
  "empty_db = \<lparr>db_traffic_data = [], db_weather_data = []\<rparr>"

text \<open>
  Traffic rows for examples: a time, a location, an hour and a vehicle count, the other
  columns filled as the engine does without rain.
\<close>

definition row :: "int \<Rightarrow> string \<Rightarrow> int \<Rightarrow> int \<Rightarrow> traffic_row" where
  "row ts loc h v =
     \<lparr>t_timestamp = ts, t_location = loc, t_vehicle_count = v,
      t_condition = get_traffic_condition v, t_speed_kmh = 30, t_hour = h,
      t_is_peak = (if is_peak_hour h then 1 else 0), t_rain_factor = 1,
      t_data_source = ''real_time_simulated''\<rparr>"

text \<open>
  Two readings at hour 7 (100 and 200 vehicles) and one at hour 8 (50 vehicles); a single
  reading; two readings of 10000 vehicles.
\<close>

definition hourly_example_db :: database where
  "hourly_example_db =
     \<lparr>db_traffic_data = [row 25200 ''Jakarta Pusat'' 7 100, row 25500 ''Jakarta Pusat'' 7 200,
                         row 28800 ''Jakarta Pusat'' 8 50],
      db_weather_data = []\<rparr>"

definition single_row_db :: database where
  "single_row_db =
     \<lparr>db_traffic_data = [row 25200 ''Jakarta Pusat'' 7 350], db_weather_data = []\<rparr>"

definition beyond_band_db :: database where
  "beyond_band_db =
     \<lparr>db_traffic_data = [row 25200 ''Jakarta Pusat'' 7 10000, row 25500 ''Jakarta Pusat'' 7 10000],
      db_weather_data = []\<rparr>"

section \<open>The specification's wording, for comparison\<close>

definition condition_labels :: "string list" where
  "condition_labels = [''Lancar'', ''Sedang'', ''Padat'', ''Sangat Padat'', ''Macet'']"

text \<open>Bands are half-open and each starts where the previous one ends.\<close>

fun bands_contiguous :: "(string \<times> int \<times> int) list \<Rightarrow> bool" where
  "bands_contiguous [] = True"
| "bands_contiguous [(c, low, high)] = (low < high)"
| "bands_contiguous ((c, low, high) # (c', low', high') # rest) =
     (low < high \<and> high = low' \<and> bands_contiguous ((c', low', high') # rest))"

definition bands_containing :: "(string \<times> int \<times> int) list \<Rightarrow> int \<Rightarrow> string list" where
  "bands_containing table v = map fst (filter (\<lambda>(c, low, high). low \<le> v \<and> v < high) table)"




text \<open>The readings that the hourly pattern is about: all, or those of one location.\<close>

definition selected_rows :: "database \<Rightarrow> string option \<Rightarrow> traffic_row list" where
  "selected_rows db location =
     (case location of
        None \<Rightarrow> db_traffic_data db
      | Some l \<Rightarrow> if l = [] then db_traffic_data db
                  else filter (\<lambda>r. t_location r = l) (db_traffic_data db))"

text \<open>The frame that \<open>get_hourly_pattern\<close> reads from the database.\<close>

definition hourly_frame :: "database \<Rightarrow> string option \<Rightarrow> traffic_row list" where
  "hourly_frame db location =
     (case location of
        None \<Rightarrow> get_all_traffic_data db
      | Some l \<Rightarrow> if l \<noteq> [] then get_traffic_by_location db l else get_all_traffic_data db)"

text \<open>The persisted rows of a location and an hour, as \<open>predict_traffic\<close> selects them.\<close>

definition slice :: "database \<Rightarrow> string \<Rightarrow> int \<Rightarrow> traffic_row list" where
  "slice db location target_hour =
     filter (\<lambda>r. t_hour r = target_hour) (get_traffic_by_location db location)"

text \<open>A result that is the error dictionary.\<close>

definition is_error :: "py_exn + 'a reply \<Rightarrow> bool" where
  "is_error res = (case res of Inr (ErrorDict msg) \<Rightarrow> True | _ \<Rightarrow> False)"

text \<open>
  The time and location of the records of a batch, and the times and locations expected of
  a backfill: for each slot \<open>j\<close> of a list, at time \<open>t0 + step * j\<close>, one entry per
  location.
\<close>

definition traffic_keys :: "traffic_row list \<Rightarrow> (int \<times> string) list" where
  "traffic_keys rows = map (\<lambda>r. (t_timestamp r, t_location r)) rows"

definition weather_keys :: "weather_row list \<Rightarrow> (int \<times> string) list" where
  "weather_keys rows = map (\<lambda>w. (w_timestamp w, w_location w)) rows"

definition slot_keys :: "int \<Rightarrow> int \<Rightarrow> nat list \<Rightarrow> string list \<Rightarrow> (int \<times> string) list" where
  "slot_keys t0 step js locs = concat (map (\<lambda>j. map (\<lambda>l. (t0 + step * int j, l)) locs) js)"

section \<open>Lemmas on rounding\<close>



section \<open>Lemmas on binary64 arithmetic\<close>



























section \<open>Lemmas on the condition classifier\<close>

lemma scan_table:
  "scan_thresholds TRAFFIC_THRESHOLDS v =
     (if 0 \<le> v \<and> v < 100 then Some ''Lancar''
      else if 100 \<le> v \<and> v < 200 then Some ''Sedang''
      else if 200 \<le> v \<and> v < 350 then Some ''Padat''
      else if 350 \<le> v \<and> v < 500 then Some ''Sangat Padat''
      else if 500 \<le> v \<and> v < 9999 then Some ''Macet''
      else None)"
  by (simp add: TRAFFIC_THRESHOLDS_def)

lemma get_traffic_condition_bands:
  "get_traffic_condition v =
     (if 0 \<le> v \<and> v < 100 then ''Lancar''
      else if 100 \<le> v \<and> v < 200 then ''Sedang''
      else if 200 \<le> v \<and> v < 350 then ''Padat''
      else if 350 \<le> v \<and> v < 500 then ''Sangat Padat''
      else ''Macet'')"
  by (simp add: get_traffic_condition_def scan_table)

lemma get_condition_eq: "get_condition v = get_traffic_condition v"
  by (simp add: get_condition_def get_traffic_condition_def)

lemma thresholds_contiguous: "bands_contiguous TRAFFIC_THRESHOLDS"
  by (simp add: TRAFFIC_THRESHOLDS_def)

lemma bands_containing_table:
  "bands_containing TRAFFIC_THRESHOLDS v =
     (if 0 \<le> v \<and> v < 100 then [''Lancar'']
      else if 100 \<le> v \<and> v < 200 then [''Sedang'']
      else if 200 \<le> v \<and> v < 350 then [''Padat'']
      else if 350 \<le> v \<and> v < 500 then [''Sangat Padat'']
      else if 500 \<le> v \<and> v < 9999 then [''Macet'']
      else [])"
  by (simp add: bands_containing_def TRAFFIC_THRESHOLDS_def)

section \<open>Claims on the shared traffic model\<close>

text \<open>
  C1. For every integer vehicle count \<open>v \<ge> 0\<close> the classifier of the engine and the one of
  the generator return the same label, one of the five. The bands of the table are
  contiguous and half-open: each count below 9999 lies in exactly one band, and the label
  returned is that band's, so the five labels partition the counts at 100, 200, 350 and 500.
  From 9999 on no band contains the count, the scan ends without a match, and the
  fallback label "Macet" is returned.
\<close>

theorem classifier_bands_and_fallback:
  "0 \<le> v \<Longrightarrow>
     get_traffic_condition v \<in> set condition_labels
     \<and> get_condition v = get_traffic_condition v
     \<and> bands_contiguous TRAFFIC_THRESHOLDS
     \<and> map fst TRAFFIC_THRESHOLDS = condition_labels
     \<and> distinct condition_labels
     \<and> (v < 9999 \<longrightarrow> bands_containing TRAFFIC_THRESHOLDS v = [get_traffic_condition v])
     \<and> (get_traffic_condition v = ''Lancar'' \<longleftrightarrow> v < 100)
     \<and> (get_traffic_condition v = ''Sedang'' \<longleftrightarrow> 100 \<le> v \<and> v < 200)
     \<and> (get_traffic_condition v = ''Padat'' \<longleftrightarrow> 200 \<le> v \<and> v < 350)
     \<and> (get_traffic_condition v = ''Sangat Padat'' \<longleftrightarrow> 350 \<le> v \<and> v < 500)
     \<and> (get_traffic_condition v = ''Macet'' \<longleftrightarrow> 500 \<le> v)
     \<and> (9999 \<le> v \<longrightarrow> bands_containing TRAFFIC_THRESHOLDS v = []
           \<and> scan_thresholds TRAFFIC_THRESHOLDS v = None
           \<and> get_traffic_condition v = ''Macet'' \<and> get_condition v = ''Macet'')"
proof -
  assume v: "0 \<le> v"
  have 1: "get_traffic_condition v \<in> set condition_labels"
    by (simp add: get_traffic_condition_bands condition_labels_def)
  have 2: "map fst TRAFFIC_THRESHOLDS = condition_labels"
    by (simp add: TRAFFIC_THRESHOLDS_def condition_labels_def)
  have 3: "distinct condition_labels"
    by (simp add: condition_labels_def)
  have 4: "v < 9999 \<longrightarrow> bands_containing TRAFFIC_THRESHOLDS v = [get_traffic_condition v]"
    using v by (simp add: bands_containing_table get_traffic_condition_bands)
  have 5: "get_traffic_condition v = ''Lancar'' \<longleftrightarrow> v < 100"
    using v by (simp add: get_traffic_condition_bands)
  have 6: "get_traffic_condition v = ''Sedang'' \<longleftrightarrow> 100 \<le> v \<and> v < 200"
    using v by (simp add: get_traffic_condition_bands)
  have 7: "get_traffic_condition v = ''Padat'' \<longleftrightarrow> 200 \<le> v \<and> v < 350"
    using v by (simp add: get_traffic_condition_bands)
  have 8: "get_traffic_condition v = ''Sangat Padat'' \<longleftrightarrow> 350 \<le> v \<and> v < 500"
    using v by (simp add: get_traffic_condition_bands)
  have 9: "get_traffic_condition v = ''Macet'' \<longleftrightarrow> 500 \<le> v"
    using v by (simp add: get_traffic_condition_bands)
  have 10: "9999 \<le> v \<longrightarrow> bands_containing TRAFFIC_THRESHOLDS v = []
           \<and> scan_thresholds TRAFFIC_THRESHOLDS v = None
           \<and> get_traffic_condition v = ''Macet'' \<and> get_condition v = ''Macet''"
    by (simp add: bands_containing_table scan_table get_traffic_condition_bands get_condition_eq)
  from 1 get_condition_eq thresholds_contiguous 2 3 4 5 6 7 8 9 10 show ?thesis
    by blast
qed

theorem classifier_bands_and_fallback_witness:
  "(0::int) \<le> 250 \<and> get_traffic_condition 250 = ''Padat''
   \<and> bands_containing TRAFFIC_THRESHOLDS 250 = [''Padat'']
   \<and> (0::int) \<le> 12000 \<and> (9999::int) \<le> 12000
   \<and> scan_thresholds TRAFFIC_THRESHOLDS 12000 = None
   \<and> get_traffic_condition 12000 = ''Macet''"
  using classifier_bands_and_fallback [of 250] classifier_bands_and_fallback [of 12000]
  by simp

text \<open>
  C9. An hour is a peak hour exactly when it is one of 6, 7, 8, 16, 17, 18. The engine's
  half-open test and the generator's closed test agree on every integer hour, so in
  particular on 0..23.
\<close>

theorem peak_hours_agree:
  "(is_peak_hour h \<longleftrightarrow> h \<in> {6, 7, 8, 16, 17, 18})
   \<and> gen_is_peak h = (if is_peak_hour h then 1 else 0)"
proof -
  have "is_peak_hour h \<longleftrightarrow> (6 \<le> h \<and> h < 9) \<or> (16 \<le> h \<and> h < 19)"
    by (simp add: is_peak_hour_def PEAK_MORNING_start_def PEAK_MORNING_end_def
        PEAK_EVENING_start_def PEAK_EVENING_end_def)
  moreover have "(6 \<le> h \<and> h < 9) \<or> (16 \<le> h \<and> h < 19) \<longleftrightarrow> h \<in> {6, 7, 8, 16, 17, 18}"
    by auto
  moreover have "(6 \<le> h \<and> h \<le> 8) \<or> (16 \<le> h \<and> h \<le> 18) \<longleftrightarrow> (6 \<le> h \<and> h < 9) \<or> (16 \<le> h \<and> h < 19)"
    by auto
  ultimately show ?thesis
    by (simp only: gen_is_peak_def)
qed




section \<open>Lemmas on the weather client and the simulation cycle\<close>

lemma rain_impact_ge_1: "1 \<le> dict_get RAIN_IMPACT c 1"
  by (simp add: dict_get_def RAIN_IMPACT_def)

lemma get_weather_returns: "\<exists>r. get_weather locations net now loc = Inr r"
  by (simp add: get_weather_def split: sum.split)

lemma get_weather_try_fails: "fetch_fails result \<Longrightarrow> get_weather_try loc result now = Inr None \<or> (\<exists>e. get_weather_try loc result now = Inl e)"
  by (cases result) (simp_all add: fetch_fails_def get_weather_try_def)

lemma get_weather_unavailable:
  "loc \<notin> set (map fst locations) \<or> fetch_fails (net loc) \<Longrightarrow> get_weather locations net now loc = Inr None"
  using get_weather_try_fails [of "net loc" loc now]
  by (auto simp add: get_weather_def split: sum.split)

lemma get_weather_try_location:
  assumes "get_weather_try loc result now = Inr (Some w)"
  shows "w_location w = loc"
proof (cases result)
  case (Raises e)
  with assms show ?thesis by (simp add: get_weather_try_def)
next
  case (Response status_code b)
  show ?thesis
  proof (cases b)
    case NotJson
    with Response assms show ?thesis
      by (simp add: get_weather_try_def split: if_splits)
  next
    case (Json data)
    with Response assms show ?thesis
      by (simp add: get_weather_try_def Let_def split: if_splits sum.splits) auto
  qed
qed

lemma get_weather_location:
  "get_weather locations net now loc = Inr (Some w) \<Longrightarrow> w_location w = loc"
  by (auto simp add: get_weather_def split: if_splits sum.splits dest: get_weather_try_location)

lemma get_all_weather_returns:
  "\<exists>ws. get_all_weather locations net now names = Inr ws
     \<and> (\<forall>w \<in> set ws. get_weather locations net now (w_location w) = Inr (Some w))"
proof (induction names)
  case Nil
  show ?case by simp
next
  case (Cons n names)
  then obtain ws where ws: "get_all_weather locations net now names = Inr ws"
    and all: "\<forall>w \<in> set ws. get_weather locations net now (w_location w) = Inr (Some w)" by blast
  obtain r where r: "get_weather locations net now n = Inr r"
    using get_weather_returns by blast
  show ?case
  proof (cases r)
    case None
    with ws all r show ?thesis by simp
  next
    case (Some w)
    with r have "w_location w = n" by (simp add: get_weather_location)
    with Some ws all r show ?thesis by simp
  qed
qed

lemma weather_map_lookup:
  "fold (\<lambda>w m. m(w_location w \<mapsto> w)) ws m0 loc = Some w \<Longrightarrow> w \<in> set ws \<and> w_location w = loc \<or> m0 loc = Some w"
proof (induction ws arbitrary: m0)
  case Nil
  then show ?case by simp
next
  case (Cons a ws)
  from Cons.prems have "fold (\<lambda>w m. m(w_location w \<mapsto> w)) ws (m0(w_location a \<mapsto> a)) loc = Some w"
    by (simp only: fold.simps o_apply)
  from Cons.IH [OF this] show ?case
    by (auto split: if_splits)
qed

lemma simulate_location_returns:
  "\<exists>row pos'. simulate_location rng now loc wd pos = Inr (row, pos')
     \<and> t_location row = loc \<and> (wd = None \<longrightarrow> t_rain_factor row = 1)"
proof -
  have "dict_get RAIN_IMPACT c 1 \<noteq> 0" for c
    using rain_impact_ge_1 [of c] by linarith
  then show ?thesis
    by (cases wd) (simp_all add: simulate_location_def calculate_speed_def random_uniform_def Let_def)
qed

lemma simulate_all_returns:
  "\<exists>records pos'. simulate_all rng now wm names pos = Inr (records, pos')
     \<and> map t_location records = names
     \<and> (\<forall>i < length names. wm (names ! i) = None \<longrightarrow> t_rain_factor (records ! i) = 1)"
proof (induction names arbitrary: pos)
  case Nil
  show ?case by simp
next
  case (Cons n names)
  from simulate_location_returns [of rng now n "wm n" pos]
  obtain row p1 where row: "simulate_location rng now n (wm n) pos = Inr (row, p1)"
    and loc: "t_location row = n" and rf: "wm n = None \<longrightarrow> t_rain_factor row = 1"
    by (elim exE conjE) (rule that)
  from Cons [of p1] obtain records p2 where rec: "simulate_all rng now wm names p1 = Inr (records, p2)"
    and locs: "map t_location records = names"
    and rfs: "\<forall>i < length names. wm (names ! i) = None \<longrightarrow> t_rain_factor (records ! i) = 1"
    by (elim exE conjE) (rule that)
  have all: "wm ((n # names) ! i) = None \<longrightarrow> t_rain_factor ((row # records) ! i) = 1"
    if "i < length (n # names)" for i
  proof (cases i)
    case 0
    with rf show ?thesis by simp
  next
    case (Suc j)
    with that have "j < length names" by simp
    with rfs Suc show ?thesis by simp
  qed
  have run: "simulate_all rng now wm (n # names) pos = Inr (row # records, p2)"
    by (simp add: row rec)
  have "map t_location (row # records) = n # names"
    by (simp add: loc locs)
  with run all show ?case by (intro exI conjI allI impI) auto
qed

theorem weather_failure_not_fatal:
  "(\<exists>r. get_weather locations net now loc = Inr r)
   \<and> (loc \<notin> set (map fst locations) \<or> fetch_fails (net loc)
        \<longrightarrow> get_weather locations net now loc = Inr None)
   \<and> (\<exists>records db' pos'.
         run_simulation_cycle locations net now rng pos db = Inr (records, db', pos')
         \<and> map t_location records = map fst locations
         \<and> db_traffic_data db' = db_traffic_data db @ records
         \<and> (\<forall>i < length locations.
               get_weather locations net now (fst (locations ! i)) = Inr None
               \<longrightarrow> t_rain_factor (records ! i) = 1))"
proof -
  from get_all_weather_returns [of locations net now "map fst locations"]
  obtain ws where ws: "get_all_weather locations net now (map fst locations) = Inr ws"
    and all: "\<forall>w \<in> set ws. get_weather locations net now (w_location w) = Inr (Some w)"
    by (elim exE conjE) (rule that)
  let ?wm = "fold (\<lambda>w m. m(w_location w \<mapsto> w)) ws Map.empty"
  let ?db = "fold insert_weather_data ws db"
  have none: "get_weather locations net now l = Inr None \<Longrightarrow> ?wm l = None" for l
  proof (rule ccontr)
    assume g: "get_weather locations net now l = Inr None" and "?wm l \<noteq> None"
    then obtain w where "?wm l = Some w" by (cases "?wm l") simp_all
    then have "w \<in> set ws \<and> w_location w = l"
      using weather_map_lookup [of ws Map.empty l w] by simp
    with all have "get_weather locations net now l = Inr (Some w)" by fastforce
    with g show False by simp
  qed
  from simulate_all_returns [of rng now ?wm "map fst locations" pos]
  obtain records p where rec: "simulate_all rng now ?wm (map fst locations) pos = Inr (records, p)"
    and locs: "map t_location records = map fst locations"
    and rfs: "\<forall>i < length (map fst locations). ?wm (map fst locations ! i) = None \<longrightarrow> t_rain_factor (records ! i) = 1"
    by (elim exE conjE) (rule that)
  have tr: "db_traffic_data ?db = db_traffic_data db"
    by (induction ws arbitrary: db) (simp_all add: insert_weather_data_def)
  have ins: "db_traffic_data (insert_traffic_data records ?db) = db_traffic_data db @ records"
    by (simp add: insert_traffic_data_def tr)
  have run: "run_simulation_cycle locations net now rng pos db
               = Inr (records, insert_traffic_data records ?db, p)"
    by (simp add: run_simulation_cycle_def fetch_and_save_def ws rec)
  have rf: "\<forall>i < length locations.
               get_weather locations net now (fst (locations ! i)) = Inr None
               \<longrightarrow> t_rain_factor (records ! i) = 1"
    using rfs none by simp
  have cycle: "\<exists>records db' pos'.
         run_simulation_cycle locations net now rng pos db = Inr (records, db', pos')
         \<and> map t_location records = map fst locations
         \<and> db_traffic_data db' = db_traffic_data db @ records
         \<and> (\<forall>i < length locations.
               get_weather locations net now (fst (locations ! i)) = Inr None
               \<longrightarrow> t_rain_factor (records ! i) = 1)"
    using run locs ins rf by (intro exI conjI)
  show ?thesis
    using get_weather_returns [of locations net now loc]
      get_weather_unavailable [of loc locations net now] cycle
    by (intro conjI impI)
qed


theorem weather_failure_not_fatal_witness:
  "fetch_fails (example_net ''Jakarta Selatan'')
   \<and> get_weather LOCATIONS example_net 0 ''Jakarta Selatan'' = Inr None
   \<and> (\<exists>records db' pos'.
         run_simulation_cycle LOCATIONS example_net 0 (\<lambda>n. 1 / 2) 0 empty_db
           = Inr (records, db', pos')
         \<and> length records = 5 \<and> db_traffic_data db' = records
         \<and> t_rain_factor (records ! 1) = 1)"
proof -
  note T = weather_failure_not_fatal
             [of LOCATIONS example_net 0 "''Jakarta Selatan''" "\<lambda>n. 1 / 2" 0 empty_db]
  have f: "fetch_fails (example_net ''Jakarta Selatan'')"
    by (simp add: example_net_def fetch_fails_def)
  with T have g: "get_weather LOCATIONS example_net 0 ''Jakarta Selatan'' = Inr None"
    by simp
  from T obtain records db' pos' where
    r: "run_simulation_cycle LOCATIONS example_net 0 (\<lambda>n. 1 / 2) 0 empty_db
          = Inr (records, db', pos')"
    and l: "map t_location records = map fst LOCATIONS"
    and d: "db_traffic_data db' = db_traffic_data empty_db @ records"
    and a: "\<forall>i < length LOCATIONS.
              get_weather LOCATIONS example_net 0 (fst (LOCATIONS ! i)) = Inr None
              \<longrightarrow> t_rain_factor (records ! i) = 1"
    by (elim exE conjE) (rule that)
  have n: "fst (LOCATIONS ! 1) = ''Jakarta Selatan''" and len: "length LOCATIONS = 5"
    by (simp_all add: LOCATIONS_def)
  from a g n len have rf: "t_rain_factor (records ! 1) = 1"
    by simp
  from l have "length records = length LOCATIONS"
    by (metis length_map)
  with len have "length records = 5" by simp
  moreover from d have "db_traffic_data db' = records"
    by (simp add: empty_db_def)
  ultimately show ?thesis
    using f g r rf by (intro exI conjI)
qed


section \<open>Lemmas on the historical backfill\<close>

lemma length_slot_keys: "length (slot_keys t0 step js locs) = length js * length locs"
  by (induction js) (simp_all add: slot_keys_def)

lemma slot_keys_Cons:
  "slot_keys t0 step (j # js) locs = map (\<lambda>l. (t0 + step * int j, l)) locs @ slot_keys t0 step js locs"
  by (simp add: slot_keys_def)

lemma slot_keys_Nil: "slot_keys t0 step [] locs = []"
  by (simp add: slot_keys_def)

lemma gen_calculate_speed_returns:
  "\<exists>speed. gen_calculate_speed v (dict_get RAIN_IMPACT c 1) u = Inr speed"
proof -
  have "dict_get RAIN_IMPACT c 1 \<noteq> 0"
    using rain_impact_ge_1 [of c] by linarith
  then show ?thesis
    by (simp add: gen_calculate_speed_def Let_def)
qed

lemma traffic_for_locations_returns:
  "\<exists>st' rows. traffic_for_locations rng ct dow weather locs st = Inr st'
     \<and> g_traffic_batch st' = g_traffic_batch st @ rows
     \<and> traffic_keys rows = map (\<lambda>l. (strftime ct, l)) locs
     \<and> g_weather_batch st' = g_weather_batch st \<and> g_db st' = g_db st"
proof (induction locs arbitrary: st)
  case Nil
  have "traffic_for_locations rng ct dow weather [] st = Inr st
     \<and> g_traffic_batch st = g_traffic_batch st @ []
     \<and> traffic_keys [] = map (\<lambda>l. (strftime ct, l)) []
     \<and> g_weather_batch st = g_weather_batch st \<and> g_db st = g_db st"
    by (simp add: traffic_keys_def)
  then show ?case by (intro exI)
next
  case (Cons location rest)
  let ?p1 = "random_uniform rng (g_pos st) (8 / 10) (12 / 10)"
  let ?p2 = "if 5 \<le> dow then random_uniform rng (snd ?p1) (6 / 10) (85 / 100)
             else random_uniform rng (snd ?p1) (9 / 10) (11 / 10)"
  let ?rf = "dict_get RAIN_IMPACT (sw_rain_category weather) 1"
  let ?v = "py_int (of_int (dict_get VEHICLE_PATTERN (hour_of ct) 100) * fst ?p1 * fst ?p2 * ?rf)"
  let ?p3 = "random_uniform rng (snd ?p2) (- 3) 3"
  from gen_calculate_speed_returns [of ?v "sw_rain_category weather" "fst ?p3"]
  obtain speed where sp: "gen_calculate_speed ?v ?rf (fst ?p3) = Inr speed" ..
  let ?row = "\<lparr>t_timestamp = strftime ct,
                       t_location = location,
                       t_vehicle_count = ?v,
                       t_condition = get_condition ?v,
                       t_speed_kmh = speed,
                       t_hour = hour_of ct,
                       t_is_peak = gen_is_peak (hour_of ct),
                       t_rain_factor = ?rf,
                       t_data_source = ''historical_generated''\<rparr>"
  let ?st1 = "st\<lparr>g_pos := snd ?p3,
                   g_traffic_batch := g_traffic_batch st @ [?row],
                   g_count := g_count st + 1\<rparr>"
  have step: "traffic_for_locations rng ct dow weather (location # rest) st
                = traffic_for_locations rng ct dow weather rest ?st1"
    by (simp only: traffic_for_locations.simps Let_def split_def sp sum.case)
  from Cons [of ?st1] obtain st' rows where
    r: "traffic_for_locations rng ct dow weather rest ?st1 = Inr st'"
    and l: "g_traffic_batch st' = g_traffic_batch ?st1 @ rows"
    and k: "traffic_keys rows = map (\<lambda>l. (strftime ct, l)) rest"
    and w: "g_weather_batch st' = g_weather_batch ?st1" and d: "g_db st' = g_db ?st1"
    by (elim exE conjE) (rule that)
  have "g_traffic_batch st' = g_traffic_batch st @ (?row # rows)"
    using l by simp
  moreover have "traffic_keys (?row # rows) = map (\<lambda>l. (strftime ct, l)) (location # rest)"
    using k by (simp add: traffic_keys_def)
  moreover have "g_weather_batch st' = g_weather_batch st" using w by simp
  moreover have "g_db st' = g_db st" using d by simp
  moreover have "traffic_for_locations rng ct dow weather (location # rest) st = Inr st'"
    using step r by (simp only:)
  ultimately show ?case by (intro exI conjI)
qed

lemma weather_for_locations_effect:
  "\<exists>rows. g_weather_batch (weather_for_locations rng ct weather locs st)
            = g_weather_batch st @ rows
     \<and> weather_keys rows = map (\<lambda>l. (strftime ct, l)) locs
     \<and> g_traffic_batch (weather_for_locations rng ct weather locs st) = g_traffic_batch st
     \<and> g_db (weather_for_locations rng ct weather locs st) = g_db st"
proof (induction locs arbitrary: st)
  case Nil
  have "g_weather_batch (weather_for_locations rng ct weather [] st) = g_weather_batch st @ []
     \<and> weather_keys [] = map (\<lambda>l. (strftime ct, l)) []
     \<and> g_traffic_batch (weather_for_locations rng ct weather [] st) = g_traffic_batch st
     \<and> g_db (weather_for_locations rng ct weather [] st) = g_db st"
    by (simp add: weather_keys_def)
  then show ?case by (intro exI)
next
  case (Cons location rest)
  let ?p = "random_uniform rng (g_pos st) 5 25"
  let ?row = "\<lparr>w_timestamp = strftime ct,
                   w_location = location,
                   w_temperature = sw_temperature weather,
                   w_precipitation = sw_precipitation weather,
                   w_windspeed = py_round (fst ?p) 1,
                   w_weather_code = (if sw_rain_category weather \<noteq> ''none'' then 61 else 0),
                   w_weather_desc =
                     (if sw_rain_category weather \<noteq> ''none'' then ''Hujan'' else ''Cerah''),
                   w_rain_category = sw_rain_category weather\<rparr>"
  let ?st1 = "st\<lparr>g_pos := snd ?p, g_weather_batch := g_weather_batch st @ [?row]\<rparr>"
  have step: "weather_for_locations rng ct weather (location # rest) st
                = weather_for_locations rng ct weather rest ?st1"
    by (simp only: weather_for_locations.simps Let_def split_def)
  from Cons [of ?st1] obtain rows where
    l: "g_weather_batch (weather_for_locations rng ct weather rest ?st1)
          = g_weather_batch ?st1 @ rows"
    and k: "weather_keys rows = map (\<lambda>l. (strftime ct, l)) rest"
    and t: "g_traffic_batch (weather_for_locations rng ct weather rest ?st1) = g_traffic_batch ?st1"
    and d: "g_db (weather_for_locations rng ct weather rest ?st1) = g_db ?st1"
    by (elim exE conjE) (rule that)
  have "g_weather_batch (weather_for_locations rng ct weather (location # rest) st)
          = g_weather_batch st @ (?row # rows)"
    using l by (simp only: step) simp
  moreover have "weather_keys (?row # rows) = map (\<lambda>l. (strftime ct, l)) (location # rest)"
    using k by (simp add: weather_keys_def)
  moreover have "g_traffic_batch (weather_for_locations rng ct weather (location # rest) st)
          = g_traffic_batch st"
    using t by (simp only: step) simp
  moreover have "g_db (weather_for_locations rng ct weather (location # rest) st) = g_db st"
    using d by (simp only: step) simp
  ultimately show ?case by (intro exI conjI)
qed

lemma slot_returns:
  "\<exists>cache' st' trows wrows. slot rng locs dow ct cache st = Inr (cache', st')
     \<and> g_traffic_batch st' = g_traffic_batch st @ trows
     \<and> traffic_keys trows = map (\<lambda>l. (strftime ct, l)) locs
     \<and> g_weather_batch st' = g_weather_batch st @ wrows
     \<and> weather_keys wrows = (if minute_of ct = 0 then map (\<lambda>l. (strftime ct, l)) locs else [])
     \<and> g_db st' = g_db st"
proof -
  let ?w = "case cache (hour_of ct) of
               Some w \<Rightarrow> (w, cache, st)
             | None \<Rightarrow>
                 (let (w, pos) = simulate_historical_weather rng (g_pos st) (hour_of ct) dow
                  in (w, cache((hour_of ct) \<mapsto> w), st\<lparr>g_pos := pos\<rparr>))"
  let ?weather = "fst ?w" and ?cache = "fst (snd ?w)" and ?st0 = "snd (snd ?w)"
  have st0: "g_traffic_batch ?st0 = g_traffic_batch st \<and> g_weather_batch ?st0 = g_weather_batch st
               \<and> g_db ?st0 = g_db st"
    by (simp add: split_def Let_def split: option.split)
  from traffic_for_locations_returns [of rng ct dow ?weather locs ?st0] obtain st1 trows where
    r: "traffic_for_locations rng ct dow ?weather locs ?st0 = Inr st1"
    and l: "g_traffic_batch st1 = g_traffic_batch ?st0 @ trows"
    and k: "traffic_keys trows = map (\<lambda>l. (strftime ct, l)) locs"
    and w: "g_weather_batch st1 = g_weather_batch ?st0" and d: "g_db st1 = g_db ?st0"
    by (elim exE conjE) (rule that)
  from weather_for_locations_effect [of rng ct ?weather locs st1] obtain wrows1 where
    wl: "g_weather_batch (weather_for_locations rng ct ?weather locs st1)
           = g_weather_batch st1 @ wrows1"
    and wk: "weather_keys wrows1 = map (\<lambda>l. (strftime ct, l)) locs"
    and wt: "g_traffic_batch (weather_for_locations rng ct ?weather locs st1) = g_traffic_batch st1"
    and wd: "g_db (weather_for_locations rng ct ?weather locs st1) = g_db st1"
    by (elim exE conjE) (rule that)
  let ?st2 = "if minute_of ct = 0 then weather_for_locations rng ct ?weather locs st1 else st1"
  let ?wrows = "if minute_of ct = 0 then wrows1 else []"
  have run: "slot rng locs dow ct cache st = Inr (?cache, ?st2)"
    by (simp add: slot_def Let_def split_def r)
  have "g_traffic_batch ?st2 = g_traffic_batch st @ trows"
    using l st0 wt by simp
  moreover have "g_weather_batch ?st2 = g_weather_batch st @ ?wrows"
    using w st0 wl by simp
  moreover have "weather_keys ?wrows
                   = (if minute_of ct = 0 then map (\<lambda>l. (strftime ct, l)) locs else [])"
    using wk by (simp add: weather_keys_def)
  moreover have "g_db ?st2 = g_db st"
    using d st0 wd by simp
  ultimately show ?thesis using run k by (intro exI conjI)
qed


lemma slot_times:
  fixes t :: int and k :: nat
  defines "ct \<equiv> replace_hms t 0 0 0 + int k * (5 * 60 * 1000000)"
  shows "k < 288 \<Longrightarrow> ct \<le> replace_hms t 23 59 59"
    and "k < 288 \<Longrightarrow> ct < t + DAY_US"
    and "288 \<le> k \<Longrightarrow> \<not> ct \<le> replace_hms t 23 59 59"
    and "minute_of ct = 0 \<longleftrightarrow> k mod 12 = 0"
    and "strftime ct = (t div DAY_US) * 86400 + 300 * int k"
proof -
  define q where "q = t div 86400000000"
  define r where "r = t mod 86400000000"
  define u where "u = t mod 1000000"
  have r: "0 \<le> r" and u: "0 \<le> u" "u < 1000000"
    by (simp_all add: r_def u_def)
  have t: "t = q * 86400000000 + r"
    by (simp add: q_def r_def)
  have ct: "ct = q * 86400000000 + u + int k * 300000000"
    by (simp add: ct_def replace_hms_def q_def u_def)
  have eod: "replace_hms t 23 59 59 = q * 86400000000 + 86399000000 + u"
    by (simp add: replace_hms_def q_def u_def)
  show "k < 288 \<Longrightarrow> ct \<le> replace_hms t 23 59 59"
    unfolding ct eod by linarith
  show "k < 288 \<Longrightarrow> ct < t + DAY_US"
    unfolding ct DAY_US_def using t r u by linarith
  show "288 \<le> k \<Longrightarrow> \<not> ct \<le> replace_hms t 23 59 59"
    unfolding ct eod using u by linarith
  have "ct = 60000000 * (q * 1440 + 5 * int k) + u"
    unfolding ct by simp
  then have "ct div 60000000 = q * 1440 + 5 * int k"
    using u by (simp add: div_pos_pos_trivial)
  then have "minute_of ct = (q * 1440 + 5 * int k) mod 60"
    by (simp add: minute_of_def)
  also have "q * 1440 + 5 * int k = 5 * int k + 60 * (q * 24)"
    by simp
  also have "(5 * int k + 60 * (q * 24)) mod 60 = (5 * int k) mod 60"
    by (rule mod_mult_self2)
  also have "(5 * int k) mod 60 = 5 * (int k mod 12)"
    using mult_mod_right [of 5 "int k" 12] by simp
  also have "int k mod 12 = int (k mod 12)"
    by (simp add: zmod_int)
  finally have "minute_of ct = 5 * int (k mod 12)" .
  then show "minute_of ct = 0 \<longleftrightarrow> k mod 12 = 0"
    by simp
  have "ct = 1000000 * (q * 86400 + 300 * int k) + u"
    unfolding ct by simp
  then have "ct div 1000000 = q * 86400 + 300 * int k"
    using u by (simp add: div_pos_pos_trivial)
  then show "strftime ct = (t div DAY_US) * 86400 + 300 * int k"
    by (simp add: strftime_def q_def DAY_US_def)
qed

lemma day_loop_rows:
  assumes "n + k = 288" and "t + DAY_US \<le> now"
  shows "\<exists>st' trows wrows.
       day_loop rng 5 locs now dow (replace_hms t 23 59 59)
         (replace_hms t 0 0 0 + int k * (5 * 60 * 1000000)) cache st = Some (Inr st')
     \<and> g_traffic_batch st' = g_traffic_batch st @ trows
     \<and> traffic_keys trows = slot_keys ((t div DAY_US) * 86400) 300 [k..<288] locs
     \<and> g_weather_batch st' = g_weather_batch st @ wrows
     \<and> weather_keys wrows
         = slot_keys ((t div DAY_US) * 86400) 300 (filter (\<lambda>j. j mod 12 = 0) [k..<288]) locs
     \<and> g_db st' = g_db st"
  using assms(1)
proof (induction n arbitrary: k cache st)
  case 0
  then have k: "288 \<le> k" by simp
  let ?ct = "replace_hms t 0 0 0 + int k * (5 * 60 * 1000000)"
  have "\<not> ?ct \<le> replace_hms t 23 59 59"
    using slot_times(3) [OF k] .
  then have run: "day_loop rng 5 locs now dow (replace_hms t 23 59 59) ?ct cache st = Some (Inr st)"
    by (subst day_loop.simps) simp
  have e: "[k..<288] = []" using k by simp
  have "g_traffic_batch st = g_traffic_batch st @ []"
    and "traffic_keys [] = slot_keys ((t div DAY_US) * 86400) 300 [k..<288] locs"
    and "g_weather_batch st = g_weather_batch st @ []"
    and "weather_keys [] = slot_keys ((t div DAY_US) * 86400) 300
                             (filter (\<lambda>j. j mod 12 = 0) [k..<288]) locs"
    and "g_db st = g_db st"
    by (simp_all add: e slot_keys_Nil traffic_keys_def weather_keys_def)
  with run show ?case by (intro exI conjI)
next
  case (Suc n)
  then have k: "k < 288" and nk: "n + Suc k = 288" by simp_all
  let ?ct = "replace_hms t 0 0 0 + int k * (5 * 60 * 1000000)"
  let ?T = "(t div DAY_US) * 86400"
  have c1: "?ct \<le> replace_hms t 23 59 59"
    using slot_times(1) [OF k] .
  have c2: "?ct < now"
    using slot_times(2) [OF k, of t] assms(2) by linarith
  have ts: "strftime ?ct = ?T + 300 * int k"
    using slot_times(5) [of t k] .
  from slot_returns [of rng locs dow ?ct cache st] obtain cache1 st1 trows1 wrows1 where
    s: "slot rng locs dow ?ct cache st = Inr (cache1, st1)"
    and l1: "g_traffic_batch st1 = g_traffic_batch st @ trows1"
    and k1: "traffic_keys trows1 = map (\<lambda>l. (strftime ?ct, l)) locs"
    and w1: "g_weather_batch st1 = g_weather_batch st @ wrows1"
    and wk1: "weather_keys wrows1
                = (if minute_of ?ct = 0 then map (\<lambda>l. (strftime ?ct, l)) locs else [])"
    and d1: "g_db st1 = g_db st"
    by (elim exE conjE) (rule that)
  have next_ct: "?ct + 5 * 60 * 1000000 = replace_hms t 0 0 0 + int (Suc k) * (5 * 60 * 1000000)"
    by simp
  have unfold: "day_loop rng 5 locs now dow (replace_hms t 23 59 59) ?ct cache st
      = day_loop rng 5 locs now dow (replace_hms t 23 59 59)
          (replace_hms t 0 0 0 + int (Suc k) * (5 * 60 * 1000000)) cache1 st1"
    apply (subst day_loop.simps)
    apply (simp only: c1 c2 s simp_thms if_True sum.case prod.case next_ct)
    done
  from Suc.IH [OF nk, of cache1 st1] obtain st' trows wrows where
    r: "day_loop rng 5 locs now dow (replace_hms t 23 59 59)
          (replace_hms t 0 0 0 + int (Suc k) * (5 * 60 * 1000000)) cache1 st1 = Some (Inr st')"
    and l: "g_traffic_batch st' = g_traffic_batch st1 @ trows"
    and kk: "traffic_keys trows = slot_keys ?T 300 [Suc k..<288] locs"
    and w: "g_weather_batch st' = g_weather_batch st1 @ wrows"
    and wk: "weather_keys wrows
               = slot_keys ?T 300 (filter (\<lambda>j. j mod 12 = 0) [Suc k..<288]) locs"
    and d: "g_db st' = g_db st1"
    by (elim exE conjE) (rule that)
  have upt: "[k..<288] = k # [Suc k..<288]"
    using k by (simp add: upt_conv_Cons)
  have m: "minute_of ?ct = 0 \<longleftrightarrow> k mod 12 = 0"
    using slot_times(4) [of t k] .
  have k1': "traffic_keys trows1 = map (\<lambda>l. (?T + 300 * int k, l)) locs"
    using k1 by (simp only: ts)
  have wk1': "weather_keys wrows1
                = (if k mod 12 = 0 then map (\<lambda>l. (?T + 300 * int k, l)) locs else [])"
    using wk1 by (simp only: ts m)
  have "day_loop rng 5 locs now dow (replace_hms t 23 59 59) ?ct cache st = Some (Inr st')"
    using unfold r by (simp only:)
  moreover have "g_traffic_batch st' = g_traffic_batch st @ (trows1 @ trows)"
    using l l1 by simp
  moreover have "traffic_keys (trows1 @ trows) = slot_keys ?T 300 [k..<288] locs"
    using k1' kk by (simp add: upt slot_keys_Cons traffic_keys_def)
  moreover have "g_weather_batch st' = g_weather_batch st @ (wrows1 @ wrows)"
    using w w1 by simp
  moreover have "weather_keys (wrows1 @ wrows)
         = slot_keys ?T 300 (filter (\<lambda>j. j mod 12 = 0) [k..<288]) locs"
    using wk1' wk by (simp add: upt slot_keys_Cons weather_keys_def)
  moreover have "g_db st' = g_db st"
    using d d1 by simp
  ultimately show ?case by (intro exI conjI)
qed

lemma full_hours: "filter (\<lambda>j. j mod 12 = 0) [0..<288] = map (\<lambda>h. 12 * h) [0..<24]"
  by code_simp

lemma hourly_slot_keys:
  "slot_keys t0 300 (filter (\<lambda>j. j mod 12 = 0) [0..<288]) locs = slot_keys t0 3600 [0..<24] locs"
  by (simp only: full_hours) (simp add: slot_keys_def comp_def)

lemma insert_weather_batches_effect:
  "db_weather_data (insert_weather_batches wb i db) = db_weather_data db @ drop i wb
   \<and> db_traffic_data (insert_weather_batches wb i db) = db_traffic_data db"
proof (induction wb i db rule: insert_weather_batches.induct)
  case (1 weather_batch i db)
  show ?case
  proof (cases "i < length weather_batch")
    case True
    let ?db = "db\<lparr>db_weather_data := db_weather_data db @ take 1000 (drop i weather_batch)\<rparr>"
    have step: "insert_weather_batches weather_batch i db
            = insert_weather_batches weather_batch (i + 1000) ?db"
      using True by (subst insert_weather_batches.simps) (simp only: if_True)
    have "take 1000 (drop i weather_batch) @ drop (i + 1000) weather_batch = drop i weather_batch"
      using append_take_drop_id [of 1000 "drop i weather_batch"] by (simp add: add.commute)
    then have "db_weather_data ?db @ drop (i + 1000) weather_batch
                 = db_weather_data db @ drop i weather_batch"
      by simp
    moreover have "db_traffic_data ?db = db_traffic_data db"
      by simp
    ultimately show ?thesis
      using "1.IH" [OF True] by (simp only: step)
  next
    case False
    then have "insert_weather_batches weather_batch i db = db"
      by (subst insert_weather_batches.simps) simp
    with False show ?thesis by simp
  qed
qed

lemma generate_days_one_day:
  "\<exists>st' trows wrows. generate_days rng 5 locs now (now - DAY_US) st = Some (Inr st')
     \<and> db_traffic_data (g_db st') @ g_traffic_batch st'
         = db_traffic_data (g_db st) @ g_traffic_batch st @ trows
     \<and> traffic_keys trows = slot_keys (((now - DAY_US) div DAY_US) * 86400) 300 [0..<288] locs
     \<and> g_weather_batch st' = g_weather_batch st @ wrows
     \<and> weather_keys wrows = slot_keys (((now - DAY_US) div DAY_US) * 86400) 3600 [0..<24] locs
     \<and> db_weather_data (g_db st') = db_weather_data (g_db st)"
proof -
  let ?t = "now - DAY_US"
  have lt: "?t < now" by (simp add: DAY_US_def)
  have "288 + 0 = (288::nat)" and "?t + DAY_US \<le> now" by simp_all
  from day_loop_rows [OF this, of rng locs "weekday ?t" Map.empty st] obtain st1 trows wrows where
    r: "day_loop rng 5 locs now (weekday ?t) (replace_hms ?t 23 59 59)
          (replace_hms ?t 0 0 0 + int 0 * (5 * 60 * 1000000)) Map.empty st = Some (Inr st1)"
    and l: "g_traffic_batch st1 = g_traffic_batch st @ trows"
    and k: "traffic_keys trows = slot_keys ((?t div DAY_US) * 86400) 300 [0..<288] locs"
    and w: "g_weather_batch st1 = g_weather_batch st @ wrows"
    and wk: "weather_keys wrows
               = slot_keys ((?t div DAY_US) * 86400) 300 (filter (\<lambda>j. j mod 12 = 0) [0..<288]) locs"
    and d: "g_db st1 = g_db st"
    by (elim exE conjE) (rule that)
  have r': "day_loop rng 5 locs now (weekday ?t) (replace_hms ?t 23 59 59)
          (replace_hms ?t 0 0 0) Map.empty st = Some (Inr st1)"
    using r by simp
  let ?st2 = "if 5000 < length (g_traffic_batch st1)
              then st1\<lparr>g_db := insert_traffic_data (g_traffic_batch st1) (g_db st1),
                       g_traffic_batch := []\<rparr>
              else st1"
  have stop: "generate_days rng 5 locs now now ?st2 = Some (Inr ?st2)"
    by (subst generate_days.simps) simp
  have "generate_days rng 5 locs now ?t st = generate_days rng 5 locs now (?t + DAY_US) ?st2"
    using lt by (subst generate_days.simps) (simp only: if_True Let_def r' option.case sum.case)
  then have run: "generate_days rng 5 locs now ?t st = Some (Inr ?st2)"
    using stop by simp
  have "db_traffic_data (g_db ?st2) @ g_traffic_batch ?st2
         = db_traffic_data (g_db st) @ g_traffic_batch st @ trows"
    using l d by (auto simp add: insert_traffic_data_def)
  moreover have "g_weather_batch ?st2 = g_weather_batch st @ wrows"
    using w by simp
  moreover have "weather_keys wrows = slot_keys ((?t div DAY_US) * 86400) 3600 [0..<24] locs"
    using wk by (simp only: hourly_slot_keys)
  moreover have "db_weather_data (g_db ?st2) = db_weather_data (g_db st)"
    using d by (simp add: insert_traffic_data_def)
  ultimately show ?thesis using run k by (intro exI conjI)
qed

section \<open>Claims on the historical backfill\<close>

text \<open>
  C3. A backfill of 1 day at a 5-minute interval for 2 locations returns, raises nothing
  and adds exactly 576 traffic records and 48 weather records to the database, whatever
  the current time and the random draws are. The day generated is the whole day of
  \<open>now - 1 day\<close>: the traffic records are one per location for each of its 288
  five-minute slots, and the weather records are one per location for each of its 24 full
  hours, the slots whose minute is 0.
\<close>

theorem backfill_one_day_two_locations:
  "\<exists>db' trows wrows.
       generate_historical_data 1 5 [l1, l2] now rng pos db = Some (Inr db')
     \<and> db_traffic_data db' = db_traffic_data db @ trows
     \<and> db_weather_data db' = db_weather_data db @ wrows
     \<and> traffic_keys trows
         = slot_keys (((now - DAY_US) div DAY_US) * 86400) 300 [0..<288] [fst l1, fst l2]
     \<and> weather_keys wrows
         = slot_keys (((now - DAY_US) div DAY_US) * 86400) 3600 [0..<24] [fst l1, fst l2]
     \<and> length trows = 576 \<and> length wrows = 48
     \<and> get_traffic_count db' = get_traffic_count db + 576
     \<and> get_weather_count db' = get_weather_count db + 48"
proof -
  let ?st = "\<lparr>g_pos = pos, g_traffic_batch = [], g_weather_batch = [], g_count = 0, g_db = db\<rparr>"
  let ?T = "((now - DAY_US) div DAY_US) * 86400"
  from generate_days_one_day [of rng "map fst [l1, l2]" now ?st] obtain st' trows wrows where
    r: "generate_days rng 5 (map fst [l1, l2]) now (now - DAY_US) ?st = Some (Inr st')"
    and l: "db_traffic_data (g_db st') @ g_traffic_batch st'
         = db_traffic_data (g_db ?st) @ g_traffic_batch ?st @ trows"
    and k: "traffic_keys trows = slot_keys ?T 300 [0..<288] (map fst [l1, l2])"
    and w: "g_weather_batch st' = g_weather_batch ?st @ wrows"
    and wk: "weather_keys wrows = slot_keys ?T 3600 [0..<24] (map fst [l1, l2])"
    and d: "db_weather_data (g_db st') = db_weather_data (g_db ?st)"
    by (elim exE conjE) (rule that)
  let ?db1 = "if g_traffic_batch st' \<noteq> []
              then insert_traffic_data (g_traffic_batch st') (g_db st') else g_db st'"
  let ?db2 = "insert_weather_batches (g_weather_batch st') 0 ?db1"
  have run: "generate_historical_data 1 5 [l1, l2] now rng pos db = Some (Inr ?db2)"
    using r by (simp add: generate_historical_data_def Let_def)
  have t1: "db_traffic_data ?db1 = db_traffic_data db @ trows"
    using l by (auto simp add: insert_traffic_data_def)
  have w1: "db_weather_data ?db1 = db_weather_data db"
    using d by (simp add: insert_traffic_data_def)
  have t2: "db_traffic_data ?db2 = db_traffic_data db @ trows"
    using insert_weather_batches_effect [of "g_weather_batch st'" 0 ?db1] t1 by simp
  have w2: "db_weather_data ?db2 = db_weather_data db @ wrows"
    using insert_weather_batches_effect [of "g_weather_batch st'" 0 ?db1] w1 w by simp
  have k': "traffic_keys trows = slot_keys ?T 300 [0..<288] [fst l1, fst l2]"
    using k by simp
  have wk': "weather_keys wrows = slot_keys ?T 3600 [0..<24] [fst l1, fst l2]"
    using wk by simp
  have "length (traffic_keys trows) = 576"
    by (simp only: k' length_slot_keys) simp
  then have lt: "length trows = 576"
    by (simp add: traffic_keys_def)
  have "length (weather_keys wrows) = 48"
    by (simp only: wk' length_slot_keys) simp
  then have lw: "length wrows = 48"
    by (simp add: weather_keys_def)
  have ct: "get_traffic_count ?db2 = get_traffic_count db + 576"
    using t2 lt by (simp add: get_traffic_count_def)
  have cw: "get_weather_count ?db2 = get_weather_count db + 48"
    using w2 lw by (simp add: get_weather_count_def)
  from run t2 w2 k' wk' lt lw ct cw show ?thesis
    by (intro exI conjI)
qed


section \<open>Lemmas on the analytics\<close>

lemma sort_key_Nil_iff: "sort_key f xs = [] \<longleftrightarrow> xs = []"
  using length_sort [of f xs] by (metis length_0_conv)

lemma all_traffic_empty_iff: "get_all_traffic_data db = [] \<longleftrightarrow> db_traffic_data db = []"
  by (simp add: get_all_traffic_data_def sort_key_Nil_iff)

lemma set_all_traffic: "set (get_all_traffic_data db) = set (db_traffic_data db)"
  by (simp add: get_all_traffic_data_def)

lemma filter_all_traffic:
  "length (filter P (get_all_traffic_data db)) = length (filter P (db_traffic_data db))"
proof -
  have "filter P (get_all_traffic_data db)
          = sort_key (\<lambda>r. - t_timestamp r) (filter P (db_traffic_data db))"
    by (simp only: get_all_traffic_data_def filter_sort)
  then show ?thesis by simp
qed

lemma by_location_empty_iff:
  "get_traffic_by_location db l = [] \<longleftrightarrow> filter (\<lambda>r. t_location r = l) (db_traffic_data db) = []"
  by (simp only: get_traffic_by_location_def sort_key_Nil_iff)

lemma set_by_location:
  "set (get_traffic_by_location db l) = {r \<in> set (db_traffic_data db). t_location r = l}"
  by (simp add: get_traffic_by_location_def)

lemma filter_by_location:
  "length (filter P (get_traffic_by_location db l))
     = length (filter P (filter (\<lambda>r. t_location r = l) (db_traffic_data db)))"
proof -
  have "filter P (get_traffic_by_location db l)
          = sort_key (\<lambda>r. - t_timestamp r)
              (filter P (filter (\<lambda>r. t_location r = l) (db_traffic_data db)))"
    by (simp only: get_traffic_by_location_def filter_sort)
  then show ?thesis by simp
qed

lemma set_hourly_frame: "set (hourly_frame db location) = set (selected_rows db location)"
  by (auto simp add: hourly_frame_def selected_rows_def set_all_traffic set_by_location
      split: option.split)

lemma filter_hourly_frame:
  "length (filter P (hourly_frame db location)) = length (filter P (selected_rows db location))"
  by (simp add: hourly_frame_def selected_rows_def filter_all_traffic filter_by_location
      split: option.split)

lemma hourly_pattern_hours:
  "map hp_hour (get_hourly_pattern db location) = group_keys t_hour (hourly_frame db location)"
proof -
  have "get_hourly_pattern db location =
          (if hourly_frame db location = [] then []
           else map (\<lambda>h. let g = filter (\<lambda>r. t_hour r = h) (hourly_frame db location)
                        in \<lparr>hp_hour = h,
                            hp_avg_vehicles = nan_round (mean (vehicle_counts g)) 1,
                            hp_max_vehicles = max_opt (map t_vehicle_count g),
                            hp_avg_speed = nan_round (mean (map t_speed_kmh g)) 1,
                            hp_count = length g\<rparr>)
                  (group_keys t_hour (hourly_frame db location)))"
    by (simp only: get_hourly_pattern_def hourly_frame_def Let_def)
  then show ?thesis
    by (simp add: Let_def comp_def group_keys_def)
qed

lemma hourly_pattern_counts:
  assumes "r \<in> set (get_hourly_pattern db location)"
  shows "hp_count r = length (filter (\<lambda>x. t_hour x = hp_hour r) (selected_rows db location))"
proof -
  from assms have "hp_count r = length (filter (\<lambda>x. t_hour x = hp_hour r) (hourly_frame db location))"
    by (auto simp add: get_hourly_pattern_def hourly_frame_def Let_def split: if_splits)
  then show ?thesis by (simp only: filter_hourly_frame)
qed

lemma slice_matches:
  "length (slice db location target_hour)
     = length (filter (\<lambda>r. t_location r = location \<and> t_hour r = target_hour) (db_traffic_data db))"
  by (simp add: slice_def filter_by_location conj_commute)

lemma predict_traffic_unfold:
  "predict_traffic db location target_hour =
     (if slice db location target_hour = []
      then Inr (ErrorDict (if get_traffic_by_location db location = []
                           then ''Tidak ada data historis''
                           else ''Tidak ada data untuk jam '' @ py_str target_hour @ '':00''))
      else (case int_of_float (nan_sub (mean (vehicle_counts (slice db location target_hour)))
                                       (std (vehicle_counts (slice db location target_hour)))) of
              Inl e \<Rightarrow> Inl e
            | Inr lo \<Rightarrow>
               (case int_of_float (nan_add (mean (vehicle_counts (slice db location target_hour)))
                                       (std (vehicle_counts (slice db location target_hour)))) of
                  Inl e \<Rightarrow> Inl e
                | Inr predicted_max \<Rightarrow>
                   (case int_of_float (mean (vehicle_counts (slice db location target_hour))) of
                      Inl e \<Rightarrow> Inl e
                    | Inr predicted_avg \<Rightarrow>
                       Inr (Reply
                         \<lparr>p_location = location,
                          p_target_hour = target_hour,
                          p_predicted_vehicles_min = max 0 lo,
                          p_predicted_vehicles_avg = predicted_avg,
                          p_predicted_vehicles_max = predicted_max,
                          p_predicted_speed =
                            nan_round (mean (map t_speed_kmh (slice db location target_hour))) 1,
                          p_predicted_condition = predicted_condition predicted_avg,
                          p_confidence = ''Sedang (berbasis rata-rata historis)'',
                          p_samples_used = length (slice db location target_hour)\<rparr>)))))"
  unfolding predict_traffic_def slice_def Let_def by simp

lemma predict_traffic_error_iff:
  "is_error (predict_traffic db location target_hour)
     \<longleftrightarrow> filter (\<lambda>r. t_location r = location \<and> t_hour r = target_hour) (db_traffic_data db) = []"
proof -
  have "is_error (predict_traffic db location target_hour) \<longleftrightarrow> slice db location target_hour = []"
    by (simp add: predict_traffic_unfold is_error_def split: sum.split)
  also have "\<dots> \<longleftrightarrow> length (slice db location target_hour) = 0" by simp
  also have "\<dots> \<longleftrightarrow> filter (\<lambda>r. t_location r = location \<and> t_hour r = target_hour)
                       (db_traffic_data db) = []"
    by (simp only: slice_matches length_0_conv)
  finally show ?thesis .
qed

lemma predict_traffic_two_or_more:
  assumes "2 \<le> length (slice db location target_hour)"
  shows "\<exists>m s p. mean (vehicle_counts (slice db location target_hour)) = Some m
           \<and> std (vehicle_counts (slice db location target_hour)) = Some s
           \<and> predict_traffic db location target_hour = Inr (Reply p)
           \<and> p_predicted_vehicles_min p = max 0 (py_int (m - s))
           \<and> p_predicted_vehicles_max p = py_int (m + s)
           \<and> p_predicted_vehicles_avg p = py_int m
           \<and> p_samples_used p = length (slice db location target_hour)"
proof -
  let ?xs = "vehicle_counts (slice db location target_hour)"
  have len: "length ?xs = length (slice db location target_hour)"
    by (simp add: vehicle_counts_def)
  with assms have ne: "slice db location target_hour \<noteq> []" and ne': "?xs \<noteq> []" and two: "\<not> length ?xs < 2"
    by auto
  obtain m where m: "mean ?xs = Some m"
    using ne' by (simp add: mean_def)
  obtain s where s: "std ?xs = Some s"
    using two by (simp add: std_def Let_def)
  show ?thesis
    apply (rule exI [of _ m])
    apply (rule exI [of _ s])
    apply (simp add: predict_traffic_unfold ne m s nan_sub_def nan_add_def int_of_float_def)
    done
qed

lemma predict_traffic_one_sample:
  assumes "length (slice db location target_hour) = 1"
  shows "predict_traffic db location target_hour = Inl ValueError"
proof -
  let ?xs = "vehicle_counts (slice db location target_hour)"
  have len: "length ?xs = 1"
    using assms by (simp add: vehicle_counts_def)
  from assms have ne: "slice db location target_hour \<noteq> []" by auto
  have "std ?xs = None"
    using len by (simp add: std_def)
  then show ?thesis
    by (simp add: predict_traffic_unfold ne nan_sub_def int_of_float_def split: option.split)
qed

lemma predicted_condition_bands:
  "predicted_condition p =
     (if 0 \<le> p \<and> p < 100 then ''Lancar''
      else if 100 \<le> p \<and> p < 200 then ''Sedang''
      else if 200 \<le> p \<and> p < 350 then ''Padat''
      else if 350 \<le> p \<and> p < 500 then ''Sangat Padat''
      else if 500 \<le> p \<and> p < 9999 then ''Macet''
      else ''Lancar'')"
  by (simp add: predicted_condition_def TRAFFIC_THRESHOLDS_def)

lemma predicted_condition_agrees_below:
  "0 \<le> p \<Longrightarrow> p < 9999 \<Longrightarrow> predicted_condition p = get_traffic_condition p"
  by (simp add: predicted_condition_bands get_traffic_condition_bands)

section \<open>Claims on the analytics\<close>

text \<open>
  C8. For a correlation coefficient \<open>c\<close> the interpretation is the "strong positive" text
  exactly when \<open>c \<ge> 0.7\<close>, the "moderate positive" text exactly when \<open>0.4 \<le> c < 0.7\<close>, the
  "weak positive" text exactly when \<open>0.2 \<le> c < 0.4\<close>, and the "very weak" text exactly when
  \<open>c < 0.2\<close>, which includes every negative coefficient.
\<close>

theorem interpretation_bands:
  "(interpret_correlation (Some c)
      = ''Korelasi Kuat Positif: Hujan sangat mempengaruhi kemacetan'' \<longleftrightarrow> 7 / 10 \<le> c)
   \<and> (interpret_correlation (Some c)
      = ''Korelasi Sedang Positif: Hujan cukup mempengaruhi kemacetan''
        \<longleftrightarrow> 4 / 10 \<le> c \<and> c < 7 / 10)
   \<and> (interpret_correlation (Some c)
      = ''Korelasi Lemah Positif: Hujan sedikit mempengaruhi kemacetan''
        \<longleftrightarrow> 2 / 10 \<le> c \<and> c < 4 / 10)
   \<and> (interpret_correlation (Some c)
      = ''Korelasi Sangat Lemah: Hujan tidak terlalu mempengaruhi'' \<longleftrightarrow> c < 2 / 10)
   \<and> (c < 0 \<longrightarrow> interpret_correlation (Some c)
      = ''Korelasi Sangat Lemah: Hujan tidak terlalu mempengaruhi'')"
  by (simp add: interpret_correlation_def nan_ge_def)

theorem interpretation_bands_witness:
  "(- 9 / 10 :: real) < 0
   \<and> interpret_correlation (Some (- 9 / 10))
      = ''Korelasi Sangat Lemah: Hujan tidak terlalu mempengaruhi''"
  using interpretation_bands [of "- 9 / 10"] by simp

text \<open>
  C6. On a database without traffic rows every analytics operation returns its empty
  indicator, the error dictionary or the empty frame, and none raises.
\<close>

theorem empty_dataset_indicators:
  assumes "db_traffic_data db = []"
  shows "get_overall_stats db = Inr (ErrorDict ''Tidak ada data'')
       \<and> get_hourly_pattern db location_filter = []
       \<and> get_rain_correlation db = ErrorDict ''Tidak ada data''
       \<and> get_location_comparison db = []
       \<and> predict_traffic db location target_hour = Inr (ErrorDict ''Tidak ada data historis'')
       \<and> get_weekday_vs_weekend db = ErrorDict ''Tidak ada data''
       \<and> get_top_congestion db top_n = []
       \<and> get_current_status db = []"
proof -
  have all: "get_all_traffic_data db = []"
    using assms by (simp add: get_all_traffic_data_def)
  have loc: "get_traffic_by_location db l = []" for l
    using assms by (simp add: get_traffic_by_location_def)
  have 1: "get_overall_stats db = Inr (ErrorDict ''Tidak ada data'')"
    by (simp add: get_overall_stats_def all)
  have 2: "get_hourly_pattern db location_filter = []"
    by (simp add: get_hourly_pattern_def all loc split: option.split)
  have 3: "get_rain_correlation db = ErrorDict ''Tidak ada data''"
    by (simp add: get_rain_correlation_def all)
  have 4: "get_location_comparison db = []"
    by (simp add: get_location_comparison_def all)
  have 5: "predict_traffic db location target_hour = Inr (ErrorDict ''Tidak ada data historis'')"
    by (simp add: predict_traffic_def loc)
  have 6: "get_weekday_vs_weekend db = ErrorDict ''Tidak ada data''"
    by (simp add: get_weekday_vs_weekend_def all)
  have 7: "get_top_congestion db top_n = []"
    by (simp add: get_top_congestion_def all)
  have 8: "get_current_status db = []"
    by (simp add: get_current_status_def all)
  from 1 2 3 4 5 6 7 8 show ?thesis by (intro conjI)
qed

theorem empty_dataset_indicators_witness:
  "db_traffic_data empty_db = []
   \<and> get_overall_stats empty_db = Inr (ErrorDict ''Tidak ada data'')
   \<and> get_hourly_pattern empty_db None = []
   \<and> get_rain_correlation empty_db = ErrorDict ''Tidak ada data''
   \<and> get_location_comparison empty_db = []
   \<and> predict_traffic empty_db ''Jakarta Pusat'' 7 = Inr (ErrorDict ''Tidak ada data historis'')
   \<and> get_weekday_vs_weekend empty_db = ErrorDict ''Tidak ada data''
   \<and> get_top_congestion empty_db 10 = []
   \<and> get_current_status empty_db = []"
proof -
  have e: "db_traffic_data empty_db = []"
    by (simp add: empty_db_def)
  from empty_dataset_indicators [OF e, of None "''Jakarta Pusat''" 7 10] e
  show ?thesis by (intro conjI) simp_all
qed

text \<open>
  C10. The hourly pattern has a row for hour \<open>h\<close> exactly when a selected reading has that
  hour. The hours of the rows are ascending and distinct, and the count of each row is the
  number of readings of its hour, never zero: an hour without readings has no row, so the
  result may have fewer than 24 rows.
\<close>

theorem hourly_pattern_rows_iff_readings:
  "(h \<in> set (map hp_hour (get_hourly_pattern db location))
      \<longleftrightarrow> (\<exists>r \<in> set (selected_rows db location). t_hour r = h))
   \<and> sorted (map hp_hour (get_hourly_pattern db location))
   \<and> distinct (map hp_hour (get_hourly_pattern db location))
   \<and> (\<forall>r \<in> set (get_hourly_pattern db location).
         hp_count r = length (filter (\<lambda>x. t_hour x = hp_hour r) (selected_rows db location))
         \<and> 0 < hp_count r)"
proof -
  let ?hours = "map hp_hour (get_hourly_pattern db location)"
  have hours: "?hours = sort (remdups (map t_hour (hourly_frame db location)))"
    by (simp only: hourly_pattern_hours group_keys_def)
  have "set ?hours = t_hour ` set (selected_rows db location)"
    by (simp add: hours set_hourly_frame)
  then have 1: "h \<in> set ?hours \<longleftrightarrow> (\<exists>r \<in> set (selected_rows db location). t_hour r = h)"
    by auto
  have 2: "sorted ?hours" and 3: "distinct ?hours"
    by (simp_all add: hours)
  have 4: "hp_count r = length (filter (\<lambda>x. t_hour x = hp_hour r) (selected_rows db location))
           \<and> 0 < hp_count r" if r: "r \<in> set (get_hourly_pattern db location)" for r
  proof -
    have c: "hp_count r = length (filter (\<lambda>x. t_hour x = hp_hour r) (selected_rows db location))"
      using r by (rule hourly_pattern_counts)
    from r have "hp_hour r \<in> set ?hours" by simp
    then have "hp_hour r \<in> t_hour ` set (selected_rows db location)"
      by (simp only: \<open>set ?hours = t_hour ` set (selected_rows db location)\<close>)
    then obtain x where "x \<in> set (selected_rows db location)" and "t_hour x = hp_hour r"
      by auto
    then have "filter (\<lambda>x. t_hour x = hp_hour r) (selected_rows db location) \<noteq> []"
      by (auto simp add: filter_empty_conv)
    with c show ?thesis by simp
  qed
  show ?thesis
  proof (intro conjI ballI)
    show "h \<in> set ?hours \<longleftrightarrow> (\<exists>r \<in> set (selected_rows db location). t_hour r = h)"
      by (rule 1)
    show "sorted ?hours" by (rule 2)
    show "distinct ?hours" by (rule 3)
    show "hp_count r = length (filter (\<lambda>x. t_hour x = hp_hour r) (selected_rows db location))"
      if "r \<in> set (get_hourly_pattern db location)" for r
      using 4 [OF that] by (rule conjunct1)
    show "0 < hp_count r" if "r \<in> set (get_hourly_pattern db location)" for r
      using 4 [OF that] by (rule conjunct2)
  qed
qed

theorem hourly_pattern_rows_iff_readings_witness:
  "7 \<in> set (map hp_hour (get_hourly_pattern hourly_example_db None))
   \<and> (\<exists>r \<in> set (selected_rows hourly_example_db None). t_hour r = 7)
   \<and> 9 \<notin> set (map hp_hour (get_hourly_pattern hourly_example_db None))
   \<and> \<not> (\<exists>r \<in> set (selected_rows hourly_example_db None). t_hour r = 9)
   \<and> map hp_hour (get_hourly_pattern hourly_example_db None) = [7, 8]
   \<and> map hp_count (get_hourly_pattern hourly_example_db None) = [2, 1]
   \<and> length (get_hourly_pattern hourly_example_db None) < 24"
proof -
  have rows: "map t_hour (selected_rows hourly_example_db None) = [7, 7, 8]"
    by (simp add: selected_rows_def hourly_example_db_def row_def)
  have 7: "\<exists>r \<in> set (selected_rows hourly_example_db None). t_hour r = 7"
    by (simp add: selected_rows_def hourly_example_db_def row_def)
  have 9: "\<not> (\<exists>r \<in> set (selected_rows hourly_example_db None). t_hour r = 9)"
    by (simp add: selected_rows_def hourly_example_db_def row_def)
  have e: "map hp_hour (get_hourly_pattern hourly_example_db None) = [7, 8]
         \<and> map hp_count (get_hourly_pattern hourly_example_db None) = [2, 1]"
    by (simp add: get_hourly_pattern_def hourly_example_db_def row_def get_all_traffic_data_def
        Let_def group_keys_def)
  then have "length (map hp_hour (get_hourly_pattern hourly_example_db None)) = 2"
    by simp
  then have l: "length (get_hourly_pattern hourly_example_db None) < 24"
    by simp
  from hourly_pattern_rows_iff_readings [of 7 hourly_example_db None]
       hourly_pattern_rows_iff_readings [of 9 hourly_example_db None] 7 9 e l
  show ?thesis by (intro conjI) simp_all
qed

text \<open>
  C4. The claim holds for a slice of two or more rows (\<open>predict_traffic_two_or_more\<close>) and
  the error dictionary is returned exactly for an empty slice
  (\<open>predict_traffic_error_iff\<close>). For a slice of exactly one row the sample standard
  deviation is NaN and \<open>int(avg_vehicles - std_vehicles)\<close> raises \<open>ValueError\<close>: on the
  database with the single reading the call does not return a result.
\<close>

theorem predict_traffic_single_sample_raises:
  "length (slice single_row_db ''Jakarta Pusat'' 7) = 1
   \<and> predict_traffic single_row_db ''Jakarta Pusat'' 7 = Inl ValueError"
  by (simp add: predict_traffic_def slice_def single_row_db_def row_def get_traffic_by_location_def
      Let_def vehicle_counts_def mean_def std_def nan_sub_def int_of_float_def)

text \<open>
  C5. The label loop of \<open>predict_traffic\<close> starts from \<open>"Lancar"\<close>, where the shared
  classifier falls back to \<open>"Macet"\<close>: the two agree below 9999
  (\<open>predicted_condition_agrees_below\<close>) and differ from 9999 on. On the database with two
  readings of 10000 vehicles the prediction is 10000 vehicles, labelled \<open>"Lancar"\<close>, while
  the classifier labels 10000 as \<open>"Macet"\<close>.
\<close>

theorem predicted_condition_beyond_last_band:
  "predicted_condition 9999 = ''Lancar'' \<and> get_traffic_condition 9999 = ''Macet''
   \<and> (\<exists>p. predict_traffic beyond_band_db ''Jakarta Pusat'' 7 = Inr (Reply p)
          \<and> p_predicted_vehicles_avg p = 10000
          \<and> p_predicted_condition p = ''Lancar''
          \<and> get_traffic_condition (p_predicted_vehicles_avg p) = ''Macet'')"
  by (simp add: predict_traffic_def beyond_band_db_def row_def get_traffic_by_location_def
      Let_def vehicle_counts_def mean_def std_def nan_sub_def nan_add_def int_of_float_def py_int_def
      predicted_condition_bands get_traffic_condition_bands)

end
